theory Spec2Isabelle
  imports Complex_Main "HOL-Library.Sublist"
begin

section \<open>JavaScript values used by the ingestion pipeline\<close>

text \<open>
  The server is TypeScript. Strings are modelled as \<^typ>\<open>string\<close>, lists of 8-bit
  characters: on ASCII text their length and their comparisons are those of JavaScript. A
  value that may be \<^verbatim>\<open>undefined\<close> or \<^verbatim>\<open>null\<close> is an \<^typ>\<open>'a option\<close> with
  \<^const>\<open>None\<close> for both. Call durations are whole seconds, modelled as \<^typ>\<open>int\<close>;
  the other numbers (offsets inside a transcript, scores) may have fractions and are
  modelled as \<^typ>\<open>rat\<close>. A thrown \<^verbatim>\<open>Error\<close> is its message, on the left of a sum.
\<close>

text \<open>Truthiness of a possibly missing string: missing and the empty string are falsy.\<close>

definition truthy :: "string option \<Rightarrow> bool" where
  "truthy v = (case v of None \<Rightarrow> False | Some s \<Rightarrow> s \<noteq> [])"

text \<open>\<^verbatim>\<open>a || b\<close> on possibly missing strings, with a string default on the right.\<close>

definition or_else :: "string option \<Rightarrow> string \<Rightarrow> string" where
  "or_else v d = (case v of None \<Rightarrow> d | Some s \<Rightarrow> if s = [] then d else s)"

text \<open>\<^verbatim>\<open>n || 0\<close> on a possibly missing number.\<close>

definition num_or_zero :: "'a::zero option \<Rightarrow> 'a" where
  "num_or_zero v = (case v of None \<Rightarrow> 0 | Some n \<Rightarrow> if n = 0 then 0 else n)"

text \<open>\<^verbatim>\<open>String.prototype.includes\<close>: does \<open>sub\<close> occur contiguously in \<open>s\<close>.\<close>

fun str_includes :: "string \<Rightarrow> string \<Rightarrow> bool" where
  "str_includes [] sub = (sub = [])"
| "str_includes (c # cs) sub = (prefix sub (c # cs) \<or> str_includes cs sub)"

text \<open>\<^verbatim>\<open>String.prototype.trim\<close>, on the ASCII white space and line terminators.\<close>

definition isSpace :: "char \<Rightarrow> bool" where
  "isSpace c = (c \<in> set [CHR '' '', CHR 0x09, CHR 0x0A, CHR 0x0B, CHR 0x0C, CHR 0x0D])"

definition trim :: "string \<Rightarrow> string" where
  "trim s = rev (dropWhile isSpace (rev (dropWhile isSpace s)))"

text \<open>\<^verbatim>\<open>String.prototype.toLowerCase\<close>, on the ASCII letters.\<close>

definition lowerChar :: "char \<Rightarrow> char" where
  "lowerChar c =
     (let n = (of_char c :: nat) in if 65 \<le> n \<and> n \<le> 90 then char_of (n + 32) else c)"

definition toLowerCase :: "string \<Rightarrow> string" where
  "toLowerCase s = map lowerChar s"

text \<open>
  Rendering of values inside a template literal \<^verbatim>\<open>`${v}`\<close>: a whole number, and a
  string that may be \<^verbatim>\<open>undefined\<close> (but never \<^verbatim>\<open>null\<close>).
\<close>

fun showNat :: "nat \<Rightarrow> string" where
  "showNat n =
     (if n < 10 then [char_of (48 + n)] else showNat (n div 10) @ [char_of (48 + n mod 10)])"

declare showNat.simps [simp del]

definition showInt :: "int \<Rightarrow> string" where
  "showInt i = (if i < 0 then CHR ''-'' # showNat (nat (- i)) else showNat (nat i))"


text \<open>
  A property read from a JSON body that the code takes for a string. Where the code
  compares with \<^verbatim>\<open>===\<close> or renders the value in a template, \<^verbatim>\<open>null\<close> and
  \<^verbatim>\<open>undefined\<close> differ, and the three cases are kept apart.
\<close>

datatype jsstr = Undefined | Null | Str string

definition truthyJ :: "jsstr \<Rightarrow> bool" where
  "truthyJ v = (case v of Str s \<Rightarrow> s \<noteq> [] | _ \<Rightarrow> False)"

text \<open>\<^verbatim>\<open>a || b\<close> on two such values, and with a string literal on the right.\<close>

definition orJ :: "jsstr \<Rightarrow> jsstr \<Rightarrow> jsstr" where
  "orJ a b = (if truthyJ a then a else b)"

definition orElseJ :: "jsstr \<Rightarrow> string \<Rightarrow> string" where
  "orElseJ v d = (case v of Str s \<Rightarrow> if s = [] then d else s | _ \<Rightarrow> d)"

text \<open>The value inside a template literal.\<close>

definition showJ :: "jsstr \<Rightarrow> string" where
  "showJ v = (case v of Undefined \<Rightarrow> ''undefined'' | Null \<Rightarrow> ''null'' | Str s \<Rightarrow> s)"

text \<open>
  \<^verbatim>\<open>v === process.env.NAME\<close>: an unset variable is \<^verbatim>\<open>undefined\<close> and equals only
  \<^verbatim>\<open>undefined\<close>.
\<close>

definition strictEq :: "jsstr \<Rightarrow> string option \<Rightarrow> bool" where
  "strictEq v e =
     (case v of
        Undefined \<Rightarrow> e = None
      | Null \<Rightarrow> False
      | Str s \<Rightarrow> e = Some s)"

text \<open>The value as a nullable column holds it: both missing values become \<^verbatim>\<open>NULL\<close>.\<close>

definition columnOf :: "jsstr \<Rightarrow> string option" where
  "columnOf v = (case v of Str s \<Rightarrow> Some s | _ \<Rightarrow> None)"

text \<open>\<^verbatim>\<open>Array.prototype.join\<close>.\<close>

fun join :: "string \<Rightarrow> string list \<Rightarrow> string" where
  "join sep [] = []"
| "join sep [x] = x"
| "join sep (x # y # ys) = x @ sep @ join sep (y # ys)"

section \<open>Configuration\<close>

text \<open>
  The two line identifiers come from the process environment
  (\<^verbatim>\<open>OPENPHONE_MAIN_PHONE_NUMBER_ID\<close>, \<^verbatim>\<open>OPENPHONE_OUTBOUND_PHONE_NUMBER_ID\<close>); either may
  be unset.
\<close>

record config =
  envMainPhoneId :: "string option"
  envOutboundPhoneId :: "string option"

text \<open>\<^verbatim>\<open>process.env.OPENPHONE_MAIN_PHONE_NUMBER_ID || "PNVbbBqeqM"\<close> (sync.ts, analysis.ts).\<close>

definition mainPhoneIdOrDefault :: "config \<Rightarrow> string" where
  "mainPhoneIdOrDefault cfg = or_else (envMainPhoneId cfg) ''PNVbbBqeqM''"

definition outboundPhoneIdOrDefault :: "config \<Rightarrow> string" where
  "outboundPhoneIdOrDefault cfg = or_else (envOutboundPhoneId cfg) ''PNBANAZERt''"

section \<open>Telephony client data (openphone.ts)\<close>

text \<open>\<^verbatim>\<open>OpenPhoneCall\<close>. Time stamps are kept as the ISO strings the provider sends.\<close>

record OpenPhoneCall =
  call_id :: string
  call_phoneNumberId :: string
  call_userId :: string
  call_direction :: string
  call_status :: string
  call_participants :: "string list"
  call_duration :: "int option"
  call_createdAt :: string
  call_completedAt :: "string option"
  call_answeredAt :: "string option"
  call_from :: "string option"
  call_to :: "string option"

section \<open>Line-routing policy\<close>

subsection \<open>Poll pipeline: \<^verbatim>\<open>filterCallsForAnalysis\<close> (sync.ts)\<close>

text \<open>The predicate of the \<^verbatim>\<open>calls.filter\<close> callback.\<close>

definition pollShouldAnalyze :: "config \<Rightarrow> string \<Rightarrow> OpenPhoneCall \<Rightarrow> bool" where
  "pollShouldAnalyze cfg phoneNumberId call =
     (let isMainLine = (phoneNumberId = mainPhoneIdOrDefault cfg);
          isOutboundLine = (phoneNumberId = outboundPhoneIdOrDefault cfg)
      in if isMainLine \<and> call_direction call = ''incoming'' \<and> num_or_zero (call_duration call) > 30
         then True
         else if isOutboundLine \<and> call_direction call = ''outgoing'' then True
         else False)"

definition filterCallsForAnalysis :: "config \<Rightarrow> OpenPhoneCall list \<Rightarrow> string \<Rightarrow> OpenPhoneCall list" where
  "filterCallsForAnalysis cfg calls phoneNumberId = filter (pollShouldAnalyze cfg phoneNumberId) calls"

subsection \<open>Webhook handler: the inline decision (webhook router, lines 492 to 514)\<close>

record routing =
  shouldAnalyze :: bool
  phoneLine :: string
  filterReason :: string

definition webhookRouting ::
  "config \<Rightarrow> jsstr \<Rightarrow> jsstr \<Rightarrow> int \<Rightarrow> routing" where
  "webhookRouting cfg phoneNumberId direction duration =
     (if strictEq phoneNumberId (envMainPhoneId cfg) then
        (let sa = (direction = Str ''incoming'' \<and> duration > 30)
         in \<lparr>shouldAnalyze = sa, phoneLine = ''main'',
             filterReason =
               (if \<not> sa
                then ''Main line filter: '' @ showJ direction @ '' call, '' @ showInt duration
                       @ ''s (need incoming >30s)''
                else ''Qualifies: Incoming >30s'')\<rparr>)
      else if strictEq phoneNumberId (envOutboundPhoneId cfg) then
        (let sa = (direction = Str ''outgoing'')
         in \<lparr>shouldAnalyze = sa, phoneLine = ''outbound'',
             filterReason =
               (if \<not> sa
                then ''Outbound line filter: '' @ showJ direction @ '' call (need outgoing)''
                else ''Qualifies: Outgoing call'')\<rparr>)
      else \<lparr>shouldAnalyze = False, phoneLine = ''unknown'',
            filterReason = ''Unknown phone number: '' @ showJ phoneNumberId\<rparr>)"

section \<open>Transcripts\<close>

text \<open>
  An item of the provider's \<^verbatim>\<open>dialogue\<close> array. Every field may be missing at run time
  (the webhook body is untyped). Offsets are seconds with fractions, modelled as \<^typ>\<open>rat\<close>.
\<close>

record DialogueItem =
  d_content :: "string option"
  d_start :: "rat option"
  d_end :: "rat option"
  d_identifier :: "string option"
  d_userId :: "string option"

text \<open>\<^verbatim>\<open>OpenPhoneTranscript\<close>, the \<^verbatim>\<open>data\<close> of the transcript response.\<close>

record OpenPhoneTranscript =
  t_callId :: string
  t_duration :: "int option"
  t_status :: string
  t_dialogue :: "DialogueItem list option"

text \<open>
  A stored segment, an element of \<^verbatim>\<open>jsonPayload.segments\<close>. A field is \<^const>\<open>None\<close>
  when the key is absent. The client declares the offsets of a dialogue item as numbers; an
  offset stored as \<^verbatim>\<open>null\<close> has no counterpart here. Only the test for broken segments
  reads the offsets, and it is reached only when no segment is valid, so this bears on
  whether a transcript without content counts as broken or as empty, not on whether it is
  scored.
\<close>

record Segment =
  seg_start :: "rat option"
  seg_end :: "rat option"
  seg_speaker :: "string option"
  seg_text :: "string option"

record JsonPayload =
  segments :: "Segment list option"

text \<open>\<^verbatim>\<open>InsertTranscript\<close>: the columns the code writes.\<close>

record TranscriptRow =
  tr_callId :: string
  tr_fullText :: string
  tr_jsonPayload :: "JsonPayload option"
  tr_duration :: "int option"
  tr_status :: string

text \<open>\<^verbatim>\<open>a || b\<close> on two possibly missing strings.\<close>

definition or_opt :: "string option \<Rightarrow> string option \<Rightarrow> string option" where
  "or_opt a b = (if truthy a then a else b)"

text \<open>\<^verbatim>\<open>segment.userId || segment.identifier || 'Unknown'\<close>.\<close>

definition speakerOf :: "DialogueItem \<Rightarrow> string" where
  "speakerOf d = or_else (or_opt (d_userId d) (d_identifier d)) ''Unknown''"

text \<open>\<^verbatim>\<open>`${speaker}: ${text}`\<close> with \<^verbatim>\<open>text = segment.content || ''\<close>.\<close>

definition dialogueLine :: "DialogueItem \<Rightarrow> string" where
  "dialogueLine d = speakerOf d @ '': '' @ or_else (d_content d) []"

definition newline :: string where
  "newline = [CHR 0x0A]"

subsection \<open>Poll path: the normalisation inside \<^verbatim>\<open>fetchTranscriptForCall\<close> (sync.ts)\<close>

definition pollFullText :: "DialogueItem list \<Rightarrow> string" where
  "pollFullText dialogue = join newline (map dialogueLine dialogue)"

definition pollSegment :: "DialogueItem \<Rightarrow> Segment" where
  "pollSegment d =
     \<lparr>seg_start = d_start d, seg_end = d_end d,
      seg_speaker = Some (speakerOf d), seg_text = Some (or_else (d_content d) [])\<rparr>"

text \<open>The two derived parts of a transcript record: the text and the canonical segments.\<close>

record Normalized =
  n_fullText :: string
  n_segments :: "Segment list"

definition pollNormalize :: "DialogueItem list \<Rightarrow> Normalized" where
  "pollNormalize dialogue =
     \<lparr>n_fullText = pollFullText dialogue, n_segments = map pollSegment dialogue\<rparr>"

definition pollTranscriptData :: "OpenPhoneTranscript \<Rightarrow> DialogueItem list \<Rightarrow> TranscriptRow" where
  "pollTranscriptData transcript dialogue =
     \<lparr>tr_callId = t_callId transcript,
      tr_fullText = n_fullText (pollNormalize dialogue),
      tr_jsonPayload = Some \<lparr>segments = Some (n_segments (pollNormalize dialogue))\<rparr>,
      tr_duration = t_duration transcript,
      tr_status = t_status transcript\<rparr>"

subsection \<open>Push path: the normalisation inside the webhook handler\<close>

text \<open>The predicate of \<^verbatim>\<open>dialogue.filter\<close>: non-blank content and a speaker field.\<close>

definition validDialogueItem :: "DialogueItem \<Rightarrow> bool" where
  "validDialogueItem d =
     (let hasContent = (case d_content d of None \<Rightarrow> False | Some c \<Rightarrow> length (trim c) > 0);
          hasSpeaker = (d_userId d \<noteq> None \<or> d_identifier d \<noteq> None)
      in hasContent \<and> hasSpeaker)"

definition webhookSegment :: "DialogueItem \<Rightarrow> Segment" where
  "webhookSegment d =
     \<lparr>seg_start = Some (num_or_zero (d_start d)), seg_end = Some (num_or_zero (d_end d)),
      seg_speaker = Some (speakerOf d), seg_text = Some (or_else (d_content d) [])\<rparr>"

text \<open>
  Lines 630 to 670: the text and the segments the handler builds from the event's
  dialogue, or the error it throws when no item is valid.
\<close>

definition webhookNormalize :: "DialogueItem list \<Rightarrow> string + Normalized" where
  "webhookNormalize dialogue =
     (let validDialogue = filter validDialogueItem dialogue
      in if length validDialogue = 0 then Inl ''No valid dialogue items in transcript''
         else Inr \<lparr>n_fullText = join newline (map dialogueLine validDialogue),
                   n_segments = map webhookSegment validDialogue\<rparr>)"

section \<open>The store (drizzle/schema.ts)\<close>

text \<open>
  A table is the list of its rows in insertion order. A row carries the columns the code
  writes; the auto-increment key and the columns the database fills by default are left
  out. Dates are kept as the strings they are parsed from. The store is taken to accept
  every string it is given for a text column: the length limits, the two admitted values
  of \<^verbatim>\<open>direction\<close> and the uniqueness of \<^verbatim>\<open>callId\<close> are not checked.
\<close>

text \<open>The \<^verbatim>\<open>metadata\<close> column of a call: the raw call (poll) or the routing record (push).\<close>

record WebhookCallMeta =
  wm_phoneLine :: string
  wm_shouldAnalyze :: bool
  wm_filterReason :: string
  wm_answeredBy :: jsstr
  wm_initiatedBy :: jsstr
  wm_webhookReceivedAt :: string
  wm_webhookEventType :: string
  wm_participants :: "string list"
  wm_hasTranscript :: bool

datatype CallMeta = PollMeta OpenPhoneCall | WebhookMeta WebhookCallMeta

record CallRow =
  cr_callId :: string
  cr_direction :: string
  cr_fromNumber :: string
  cr_toNumber :: string
  cr_duration :: int
  cr_status :: string
  cr_createdAt :: string
  cr_answeredAt :: "string option"
  cr_completedAt :: "string option"
  cr_phoneNumberId :: "string option"
  cr_userId :: "string option"
  cr_metadata :: CallMeta

datatype compliance = Pass | Fail | Review

text \<open>
  The \<^verbatim>\<open>metadata\<close> column of an analysis: what \<^verbatim>\<open>saveAnalysisToDatabase\<close> builds
  (line provenance; the structured sub-results pass through unchanged and are left out), or
  the placeholder's \<^verbatim>\<open>noContentMetadata\<close>.
\<close>

datatype AnalysisMeta =
    ScoredMeta (sm_phoneNumberId: "string option") (sm_phoneLine: "string option")
  | NoContentMeta (nc_phoneLine: string) (nc_emptyTranscript: bool) (nc_brokenTranscript: bool)
      (nc_reason: string)

text \<open>
  The row of the \<^verbatim>\<open>analyses\<close> table. The \<^verbatim>\<open>score\<close> column is declared
  \<^verbatim>\<open>int("score")\<close> (schema.ts, line 95), so a row holds a whole number. Left out:
  the JSON columns that pass through unchanged, \<^verbatim>\<open>hasClosing\<close> (always \<^verbatim>\<open>null\<close>) and
  \<^verbatim>\<open>analyzedAt\<close> (the clock).
\<close>

record AnalysisRow =
  an_callId :: string
  an_score :: int
  an_summary :: string
  an_sentiment :: "string option"
  an_complianceCheck :: compliance
  an_hasGreeting :: "bool option"
  an_concernsAddressed :: "bool option"
  an_complianceNotes :: "string option"
  an_actionItems :: "string option"
  an_metadata :: AnalysisMeta
  an_outcome :: "string option"
  an_breakdownPoint :: "string option"
  an_appointmentScheduled :: "bool option"
  an_callbackScheduled :: "bool option"

text \<open>\<^verbatim>\<open>InsertWebhookHealth\<close>.\<close>

record HealthRow =
  wh_lastWebhookReceived :: string
  wh_eventType :: "string option"
  wh_callId :: "string option"

record database =
  calls :: "CallRow list"
  transcripts :: "TranscriptRow list"
  analyses :: "AnalysisRow list"
  webhookHealth :: "HealthRow list"

text \<open>\<^verbatim>\<open>select().from(t).where(eq(t.callId, id)).limit(1)\<close>: the first matching row.\<close>

definition selectCall :: "database \<Rightarrow> string \<Rightarrow> CallRow option" where
  "selectCall d cid = find (\<lambda>r. cr_callId r = cid) (calls d)"

definition selectTranscript :: "database \<Rightarrow> string \<Rightarrow> TranscriptRow option" where
  "selectTranscript d cid = find (\<lambda>r. tr_callId r = cid) (transcripts d)"

definition selectAnalysis :: "database \<Rightarrow> string \<Rightarrow> AnalysisRow option" where
  "selectAnalysis d cid = find (\<lambda>r. an_callId r = cid) (analyses d)"

text \<open>\<^verbatim>\<open>update(t).set(..).where(eq(t.callId, id))\<close>: every matching row is rewritten.\<close>

definition updateCalls :: "string \<Rightarrow> (CallRow \<Rightarrow> CallRow) \<Rightarrow> database \<Rightarrow> database" where
  "updateCalls cid f d = d\<lparr>calls := map (\<lambda>r. if cr_callId r = cid then f r else r) (calls d)\<rparr>"

definition updateTranscripts ::
  "string \<Rightarrow> (TranscriptRow \<Rightarrow> TranscriptRow) \<Rightarrow> database \<Rightarrow> database" where
  "updateTranscripts cid f d =
     d\<lparr>transcripts := map (\<lambda>r. if tr_callId r = cid then f r else r) (transcripts d)\<rparr>"

definition updateAnalyses ::
  "string \<Rightarrow> (AnalysisRow \<Rightarrow> AnalysisRow) \<Rightarrow> database \<Rightarrow> database" where
  "updateAnalyses cid f d =
     d\<lparr>analyses := map (\<lambda>r. if an_callId r = cid then f r else r) (analyses d)\<rparr>"

text \<open>\<^verbatim>\<open>insert(t).values(row)\<close>.\<close>

definition insertCall :: "CallRow \<Rightarrow> database \<Rightarrow> database" where
  "insertCall row d = d\<lparr>calls := calls d @ [row]\<rparr>"

definition insertTranscript :: "TranscriptRow \<Rightarrow> database \<Rightarrow> database" where
  "insertTranscript row d = d\<lparr>transcripts := transcripts d @ [row]\<rparr>"

definition insertAnalysis :: "AnalysisRow \<Rightarrow> database \<Rightarrow> database" where
  "insertAnalysis row d = d\<lparr>analyses := analyses d @ [row]\<rparr>"

section \<open>The world the services run in\<close>

text \<open>
  The scoring request is one of the two prompts built around the transcript text
  (\<^verbatim>\<open>buildInboundQAPrompt\<close>, \<^verbatim>\<open>buildOutboundQAPrompt\<close>).
\<close>

datatype prompt = InboundPrompt string | OutboundPrompt string

text \<open>
  The mutable state: what \<^verbatim>\<open>getDb()\<close> yields (\<^const>\<open>None\<close> when it yields no handle,
  the case every caller tests with \<^verbatim>\<open>if (!db)\<close>), and the requests sent so far to the
  scoring function and to the transcript endpoint. The two logs are not in the source:
  they record the calls to the two external services, so that a property can say that a
  call was or was not made.
\<close>

record world =
  db :: "database option"
  llmLog :: "prompt list"
  fetchLog :: "string list"

text \<open>
  A JSON value, for the one property whose type the code tests: the score. A number out of
  \<^verbatim>\<open>JSON.parse\<close> is never \<^verbatim>\<open>NaN\<close>; a literal too large for a double parses to an
  infinity, which fails the range check as every number above 100 does.
\<close>

datatype jsval = JUndefined | JNull | JBool bool | JNum rat | JStr string

text \<open>
  One entry of \<^verbatim>\<open>complianceChecks\<close>: \<open>compliant\<close> is \<open>Some b\<close> when the property is
  the boolean \<open>b\<close>.
\<close>

record ComplianceEntry =
  ce_compliant :: "bool option"
  ce_notes :: "string option"

text \<open>
  The fields of the parsed object that the dispatcher reads. In \<open>aj_complianceChecks\<close> a
  key maps to \<^const>\<open>None\<close> when its value is falsy.
\<close>

record AnalysisJson =
  aj_score :: jsval
  aj_summary :: "string option"
  aj_sentiment :: "string option"
  aj_complianceChecks :: "(string \<times> ComplianceEntry option) list option"
  aj_coachingNotes :: "string option"
  aj_outcome :: "string option"
  aj_breakdownPoint :: "string option"
  aj_keyActionItems :: "string list option"
  aj_appointmentScheduled :: "bool option"
  aj_callbackScheduled :: "bool option"

text \<open>
  What the scoring call yields up to the parsed JSON: \<^verbatim>\<open>invokeLLM\<close> throws, the
  response has no content, \<^verbatim>\<open>JSON.parse\<close> throws (or yields \<^verbatim>\<open>null\<close>, so that reading
  the score throws), or a value is parsed whose properties can be read.
\<close>

datatype llm_outcome =
    LLMThrows string
  | LLMNoContent
  | LLMBadJSON string
  | LLMParsed AnalysisJson

text \<open>\<^verbatim>\<open>fetchCalls\<close> parameters (the time window is left out) and response.\<close>

record FetchParams =
  fp_phoneNumberId :: string
  fp_participants :: "string list option"
  fp_userId :: "string option"
  fp_pageToken :: "string option"

record CallsResponse =
  resp_data :: "OpenPhoneCall list"
  resp_nextPageToken :: "string option"

text \<open>
  The external collaborators: the configuration, the scoring function, the telephony
  client, and the rounding rule of the store. A thrown \<^verbatim>\<open>Error\<close> is \<^const>\<open>Inl\<close> of
  its message. The code hands the store a JavaScript number for the \<^verbatim>\<open>int\<close> column
  \<^verbatim>\<open>score\<close>; the store keeps a whole number as it is and turns a number with a
  fraction into one of its two whole neighbours. Which neighbour is the store's business:
  \<open>sv_roundsUp\<close> says for each number whether it goes up.
\<close>

record services =
  sv_config :: config
  sv_roundsUp :: "rat \<Rightarrow> bool"
  sv_invokeLLM :: "prompt \<Rightarrow> llm_outcome"
  sv_fetchTranscript :: "string \<Rightarrow> string + OpenPhoneTranscript option"
  sv_fetchCalls :: "FetchParams \<Rightarrow> string + CallsResponse"

text \<open>The value an \<^verbatim>\<open>int\<close> column takes for a JavaScript number.\<close>

definition intColumn :: "(rat \<Rightarrow> bool) \<Rightarrow> rat \<Rightarrow> int" where
  "intColumn roundsUp x = (if roundsUp x then \<lceil>x\<rceil> else \<lfloor>x\<rfloor>)"

section \<open>Store upserts of the poll path (sync.ts)\<close>

text \<open>\<^verbatim>\<open>xs[i]\<close> read with \<^verbatim>\<open>?.\<close>: missing when out of range.\<close>

definition nthOpt :: "'a list \<Rightarrow> nat \<Rightarrow> 'a option" where
  "nthOpt xs i = (if i < length xs then Some (xs ! i) else None)"

text \<open>\<^verbatim>\<open>v || null\<close>, and \<^verbatim>\<open>v ? new Date(v) : null\<close> on a date string.\<close>

definition orNull :: "string option \<Rightarrow> string option" where
  "orNull v = (if truthy v then v else None)"

definition callDataOf :: "OpenPhoneCall \<Rightarrow> CallRow" where
  "callDataOf call =
     (let fromNumber = or_else (or_opt (call_from call) (nthOpt (call_participants call) 0)) [];
          toNumber = or_else (or_opt (call_to call) (nthOpt (call_participants call) 1)) []
      in \<lparr>cr_callId = call_id call,
          cr_direction = call_direction call,
          cr_fromNumber = fromNumber,
          cr_toNumber = toNumber,
          cr_duration = num_or_zero (call_duration call),
          cr_status = call_status call,
          cr_createdAt = call_createdAt call,
          cr_answeredAt = orNull (call_answeredAt call),
          cr_completedAt = orNull (call_completedAt call),
          cr_phoneNumberId = Some (call_phoneNumberId call),
          cr_userId = Some (call_userId call),
          cr_metadata = PollMeta call\<rparr>)"

text \<open>\<^verbatim>\<open>upsertCall\<close>: \<open>Inr True\<close> when the call was updated, \<open>Inr False\<close> when inserted.\<close>

definition upsertCall :: "OpenPhoneCall \<Rightarrow> world \<Rightarrow> (string + bool) \<times> world" where
  "upsertCall call w =
     (case db w of
        None \<Rightarrow> (Inl ''Database not available'', w)
      | Some d \<Rightarrow>
          (let callData = callDataOf call
           in case selectCall d (call_id call) of
                Some existing \<Rightarrow>
                  (Inr True, w\<lparr>db := Some (updateCalls (call_id call) (\<lambda>r. callData) d)\<rparr>)
              | None \<Rightarrow> (Inr False, w\<lparr>db := Some (insertCall callData d)\<rparr>)))"

text \<open>\<^verbatim>\<open>fetchTranscriptForCall\<close>: \<open>Inr True\<close> when a transcript was stored.\<close>

definition fetchTranscriptForCall :: "services \<Rightarrow> string \<Rightarrow> world \<Rightarrow> (string + bool) \<times> world" where
  "fetchTranscriptForCall sv callId w =
     (case db w of
        None \<Rightarrow> (Inl ''Database not available'', w)
      | Some d \<Rightarrow>
          (let w1 = w\<lparr>fetchLog := fetchLog w @ [callId]\<rparr>
           in case sv_fetchTranscript sv callId of
                Inl msg \<Rightarrow> if str_includes msg ''404'' then (Inr False, w1) else (Inl msg, w1)
              | Inr None \<Rightarrow> (Inr False, w1)
              | Inr (Some transcript) \<Rightarrow>
                  (case t_dialogue transcript of
                     None \<Rightarrow> (Inr False, w1)
                   | Some dialogue \<Rightarrow>
                       if length dialogue = 0 then (Inr False, w1)
                       else
                         (let transcriptData = pollTranscriptData transcript dialogue
                          in case selectTranscript d callId of
                               Some existing \<Rightarrow>
                                 (Inr True,
                                  w1\<lparr>db := Some (updateTranscripts callId (\<lambda>r. transcriptData) d)\<rparr>)
                             | None \<Rightarrow>
                                 (Inr True, w1\<lparr>db := Some (insertTranscript transcriptData d)\<rparr>)))))"

section \<open>Analysis dispatcher (analysis.ts)\<close>

record AnalyzeCallOptions =
  opt_callId :: string
  opt_transcriptText :: "string option"
  opt_callDirection :: "string option"
  opt_phoneNumberId :: jsstr

text \<open>The \<^verbatim>\<open>analysis\<close> of a result: the parsed object, or the placeholder literal.\<close>

record NoContentAnalysis =
  nca_score :: rat
  nca_summary :: string
  nca_complianceCheck :: compliance
  nca_complianceNotes :: string
  nca_metadata :: AnalysisMeta

datatype ResultAnalysis = ScoredAnalysis AnalysisJson | PlaceholderAnalysis NoContentAnalysis

record AnalyzeCallResult =
  res_success :: bool
  res_callId :: string
  res_analysis :: "ResultAnalysis option"
  res_error :: "string option"

text \<open>The \<^verbatim>\<open>score\<close> property of the returned analysis, when there is one.\<close>

definition resultScore :: "AnalyzeCallResult \<Rightarrow> jsval option" where
  "resultScore r =
     (case res_analysis r of
        None \<Rightarrow> None
      | Some (ScoredAnalysis a) \<Rightarrow> Some (aj_score a)
      | Some (PlaceholderAnalysis p) \<Rightarrow> Some (JNum (nca_score p)))"

definition failure :: "string \<Rightarrow> string \<Rightarrow> AnalyzeCallResult" where
  "failure callId msg =
     \<lparr>res_success = False, res_callId = callId, res_analysis = None, res_error = Some msg\<rparr>"

subsection \<open>Content check\<close>

text \<open>The check on the text (lines 83 to 99): the pair \<open>(hasContent, isBroken)\<close>.\<close>

definition checkText :: "string \<Rightarrow> bool \<times> bool" where
  "checkText transcriptText =
     (if transcriptText \<noteq> [] \<and> length (trim transcriptText) > 0 then
        if str_includes transcriptText ''undefined: undefined'' then (False, True)
        else
          (let trimmedText = trim transcriptText
           in if length trimmedText > 10
                 \<and> \<not> str_includes (toLowerCase trimmedText) ''no transcript''
                 \<and> \<not> str_includes (toLowerCase trimmedText) ''transcript unavailable''
              then (True, False) else (False, False))
      else (False, False))"

definition validSegment :: "Segment \<Rightarrow> bool" where
  "validSegment seg =
     ((case seg_text seg of None \<Rightarrow> False | Some t \<Rightarrow> t \<noteq> [] \<and> length (trim t) > 0)
      \<and> truthy (seg_speaker seg) \<and> seg_speaker seg \<noteq> Some ''undefined'')"

definition brokenSegment :: "Segment \<Rightarrow> bool" where
  "brokenSegment seg =
     (seg_start seg \<noteq> None \<and> seg_end seg \<noteq> None
      \<and> (\<not> truthy (seg_text seg) \<or> \<not> truthy (seg_speaker seg)
           \<or> seg_speaker seg = Some ''undefined''))"

text \<open>The whole check (lines 80 to 125), with the segments consulted only for text without content.\<close>

definition contentCheck :: "string \<Rightarrow> TranscriptRow option \<Rightarrow> bool \<times> bool" where
  "contentCheck transcriptText transcriptRecord =
     (let (hasContent, isBroken) = checkText transcriptText
      in if \<not> hasContent \<and> \<not> isBroken then
           (case transcriptRecord of
              None \<Rightarrow> (hasContent, isBroken)
            | Some t \<Rightarrow>
                (case tr_jsonPayload t of
                   None \<Rightarrow> (hasContent, isBroken)
                 | Some jsonPayload \<Rightarrow>
                     (case segments jsonPayload of
                        None \<Rightarrow> (hasContent, isBroken)
                      | Some segs \<Rightarrow>
                          if length (filter validSegment segs) > 0 then (True, isBroken)
                          else if length (filter brokenSegment segs) > 0 then (hasContent, True)
                          else (hasContent, isBroken))))
         else (hasContent, isBroken))"

text \<open>The three classes the dispatcher distinguishes at line 127.\<close>

datatype transcript_class = Valid | Empty | Broken

definition classify :: "string \<Rightarrow> TranscriptRow option \<Rightarrow> transcript_class" where
  "classify transcriptText transcriptRecord =
     (let (hasContent, isBroken) = contentCheck transcriptText transcriptRecord
      in if \<not> hasContent \<or> isBroken then (if isBroken then Broken else Empty) else Valid)"

subsection \<open>\<^verbatim>\<open>saveAnalysisToDatabase\<close>\<close>

definition isCompliant :: "ComplianceEntry option \<Rightarrow> bool" where
  "isCompliant c = (case c of None \<Rightarrow> False | Some e \<Rightarrow> ce_compliant e = Some True)"

definition inboundCompliance :: "(string \<times> ComplianceEntry option) list \<Rightarrow> compliance" where
  "inboundCompliance checks =
     (let compliantCount = length (filter (\<lambda>kv. isCompliant (snd kv)) checks);
          totalChecks = length checks
      in if compliantCount = totalChecks then Pass
         else if 2 * compliantCount < totalChecks then Fail
         else Review)"

definition noteFor ::
  "(string \<times> ComplianceEntry option) list \<Rightarrow> string \<Rightarrow> string \<Rightarrow> string list" where
  "noteFor checks key label =
     (case map_of checks key of
        Some (Some e) \<Rightarrow> [label @ '': '' @ or_else (ce_notes e) ''N/A'']
      | _ \<Rightarrow> [])"

definition inboundNotes :: "(string \<times> ComplianceEntry option) list \<Rightarrow> string" where
  "inboundNotes checks =
     join '' | ''
       (noteFor checks ''greeting'' ''Greeting''
        @ noteFor checks ''needsAssessment'' ''Needs Assessment''
        @ noteFor checks ''problemSolving'' ''Problem Solving''
        @ noteFor checks ''scheduling'' ''Scheduling''
        @ noteFor checks ''empathy'' ''Empathy'')"

definition outboundCompliance :: "AnalysisJson \<Rightarrow> compliance" where
  "outboundCompliance analysis =
     (if aj_outcome analysis = Some ''Appointment''
         \<or> aj_outcome analysis = Some ''Callback Scheduled'' then Pass
      else if aj_outcome analysis = Some ''Not Interested''
         \<or> aj_breakdownPoint analysis = Some ''Introduction'' then Fail
      else Review)"

text \<open>\<^verbatim>\<open>analysis.complianceChecks?.[key]?.compliant ?? null\<close>.\<close>

definition compliantAt :: "AnalysisJson \<Rightarrow> string \<Rightarrow> bool option" where
  "compliantAt analysis key =
     (case aj_complianceChecks analysis of
        None \<Rightarrow> None
      | Some checks \<Rightarrow>
          (case map_of checks key of Some (Some e) \<Rightarrow> ce_compliant e | _ \<Rightarrow> None))"

definition analysisMetadata :: "config \<Rightarrow> jsstr \<Rightarrow> AnalysisMeta" where
  "analysisMetadata cfg phoneNumberId =
     (case phoneNumberId of
        Str p \<Rightarrow>
          if p = [] then ScoredMeta None None
          else ScoredMeta (Some p)
                 (if p = mainPhoneIdOrDefault cfg then Some ''main''
                  else if p = outboundPhoneIdOrDefault cfg then Some ''outbound''
                  else None)
      | _ \<Rightarrow> ScoredMeta None None)"

text \<open>The row built from the analysis (lines 474 to 602).\<close>

definition analysisDataOf ::
  "services \<Rightarrow> string \<Rightarrow> AnalysisJson \<Rightarrow> jsstr \<Rightarrow> string option \<Rightarrow> AnalysisRow" where
  "analysisDataOf sv callId analysis phoneNumberId callDirection =
     (let incoming = (callDirection = Some ''incoming'');
          outgoing = (callDirection = Some ''outgoing'');
          checks = (case aj_complianceChecks analysis of None \<Rightarrow> [] | Some cs \<Rightarrow> cs);
          complianceCheck =
            (if incoming then inboundCompliance checks else outboundCompliance analysis);
          complianceNotes =
            (if incoming then inboundNotes checks else or_else (aj_coachingNotes analysis) [])
      in \<lparr>an_callId = callId,
          an_score =
            intColumn (sv_roundsUp sv) (case aj_score analysis of JNum n \<Rightarrow> n | _ \<Rightarrow> 0),
          an_summary = or_else (aj_summary analysis) ''No summary available'',
          an_sentiment = orNull (aj_sentiment analysis),
          an_complianceCheck = complianceCheck,
          an_hasGreeting = (if incoming then compliantAt analysis ''greeting'' else None),
          an_concernsAddressed =
            (if incoming then compliantAt analysis ''problemSolving'' else None),
          an_complianceNotes = (if complianceNotes = [] then None else Some complianceNotes),
          an_actionItems =
            (if incoming then map_option (join ''; '') (aj_keyActionItems analysis) else None),
          an_metadata = analysisMetadata (sv_config sv) phoneNumberId,
          an_outcome = (if outgoing then orNull (aj_outcome analysis) else None),
          an_breakdownPoint =
            (if outgoing then orNull (aj_breakdownPoint analysis) else None),
          an_appointmentScheduled =
            (if outgoing then aj_appointmentScheduled analysis else None),
          an_callbackScheduled =
            (if outgoing then aj_callbackScheduled analysis else None)\<rparr>)"

definition saveAnalysisToDatabase ::
  "services \<Rightarrow> string \<Rightarrow> AnalysisJson \<Rightarrow> jsstr \<Rightarrow> string option \<Rightarrow> world
     \<Rightarrow> (string + unit) \<times> world" where
  "saveAnalysisToDatabase sv callId analysis phoneNumberId callDirection w =
     (case db w of
        None \<Rightarrow> (Inl ''Database not available'', w)
      | Some d \<Rightarrow>
          (let analysisData = analysisDataOf sv callId analysis phoneNumberId callDirection
           in case selectAnalysis d callId of
                Some existing \<Rightarrow>
                  (Inr (), w\<lparr>db := Some (updateAnalyses callId (\<lambda>r. analysisData) d)\<rparr>)
              | None \<Rightarrow> (Inr (), w\<lparr>db := Some (insertAnalysis analysisData d)\<rparr>)))"

subsection \<open>\<^verbatim>\<open>analyzeCall\<close>\<close>

text \<open>
  The transcript text and record (lines 56 to 76): the text the caller supplied, else the
  stored row; \<^const>\<open>None\<close> when neither exists.
\<close>

definition resolveTranscript ::
  "database \<Rightarrow> AnalyzeCallOptions \<Rightarrow> (string \<times> TranscriptRow option) option" where
  "resolveTranscript d options =
     (if truthy (opt_transcriptText options)
      then Some (or_else (opt_transcriptText options) [], None)
      else (case selectTranscript d (opt_callId options) of
              None \<Rightarrow> None
            | Some transcript \<Rightarrow> Some (or_else (Some (tr_fullText transcript)) [], Some transcript)))"

definition placeholderReason :: "bool \<Rightarrow> string" where
  "placeholderReason isBroken =
     (if isBroken then ''Transcript contains corrupted data (undefined: undefined) - cannot analyze''
      else ''No dialogue content in transcript'')"

definition placeholderSummary :: "bool \<Rightarrow> string" where
  "placeholderSummary isBroken =
     (if isBroken
      then ''Transcript data is corrupted and cannot be analyzed. Please re-sync this transcript.''
      else ''Transcript contains no dialogue. This may be a Sona AI call, voicemail, or silent call.'')"

definition placeholderNotes :: "bool \<Rightarrow> string" where
  "placeholderNotes isBroken =
     ''Unable to analyze - '' @ toLowerCase (placeholderReason isBroken) @ ''.''"

definition noContentMetadata :: "config \<Rightarrow> jsstr \<Rightarrow> bool \<Rightarrow> AnalysisMeta" where
  "noContentMetadata cfg phoneNumberId isBroken =
     NoContentMeta
       (if strictEq phoneNumberId (envMainPhoneId cfg) then ''main''
        else if strictEq phoneNumberId (envOutboundPhoneId cfg) then ''outbound''
        else ''unknown'')
       (\<not> isBroken) isBroken (placeholderReason isBroken)"

text \<open>The minimal analysis passed to \<^verbatim>\<open>saveAnalysisToDatabase\<close> on the placeholder path.\<close>

definition placeholderInput :: "bool \<Rightarrow> AnalysisJson" where
  "placeholderInput isBroken =
     (let na = Some \<lparr>ce_compliant = None, ce_notes = None\<rparr>
      in \<lparr>aj_score = JNum 0,
          aj_summary = Some (placeholderSummary isBroken),
          aj_sentiment = Some ''Neutral'',
          aj_complianceChecks =
            Some [(''greeting'', na), (''verification'', na), (''recordingConsent'', na),
                  (''professionalism'', na)],
          aj_coachingNotes = None,
          aj_outcome = None,
          aj_breakdownPoint = None,
          aj_keyActionItems = Some [],
          aj_appointmentScheduled = None,
          aj_callbackScheduled = None\<rparr>)"

text \<open>Lines 127 to 188: the empty or broken transcript is not sent to the scoring function.\<close>

definition placeholderPath ::
  "services \<Rightarrow> string \<Rightarrow> jsstr \<Rightarrow> bool \<Rightarrow> world
     \<Rightarrow> (string + AnalyzeCallResult) \<times> world" where
  "placeholderPath sv callId phoneNumberId isBroken w =
     (case saveAnalysisToDatabase sv callId (placeholderInput isBroken) phoneNumberId None w of
        (Inl msg, w1) \<Rightarrow> (Inl msg, w1)
      | (Inr u, w1) \<Rightarrow>
          (let meta = noContentMetadata (sv_config sv) phoneNumberId isBroken;
               w2 = w1\<lparr>db := map_option
                          (updateAnalyses callId
                             (\<lambda>r. r\<lparr>an_score := intColumn (sv_roundsUp sv) 0,
                                     an_sentiment := None,
                                     an_complianceCheck := Review,
                                     an_complianceNotes := Some (placeholderNotes isBroken),
                                     an_metadata := meta\<rparr>))
                          (db w1)\<rparr>
           in (Inr \<lparr>res_success = True, res_callId = callId,
                    res_analysis = Some (PlaceholderAnalysis
                       \<lparr>nca_score = 0, nca_summary = placeholderSummary isBroken,
                        nca_complianceCheck = Review,
                        nca_complianceNotes = placeholderNotes isBroken,
                        nca_metadata = meta\<rparr>),
                    res_error = None\<rparr>, w2)))"

text \<open>
  Line 434: \<^verbatim>\<open>typeof score !== "number" || score < 0 || score > 100\<close>.
\<close>

definition invalidScore :: "jsval \<Rightarrow> bool" where
  "invalidScore v = (case v of JNum n \<Rightarrow> n < 0 \<or> n > 100 | _ \<Rightarrow> True)"

text \<open>
  \<^verbatim>\<open>buildInboundQAPrompt\<close> and \<^verbatim>\<open>buildOutboundQAPrompt\<close>: both throw on text that
  is empty, blank or carries the marker of a doubly missing field; otherwise the prompt is
  the fixed rubric around the text.
\<close>

definition unusableText :: "string \<Rightarrow> bool" where
  "unusableText transcriptText =
     (transcriptText = [] \<or> length (trim transcriptText) = 0
      \<or> str_includes transcriptText ''undefined: undefined'')"

definition buildInboundQAPrompt :: "string \<Rightarrow> string + prompt" where
  "buildInboundQAPrompt transcriptText =
     (if unusableText transcriptText then Inl ''Cannot analyze corrupted or empty transcript''
      else Inr (InboundPrompt transcriptText))"

definition buildOutboundQAPrompt :: "string \<Rightarrow> string + prompt" where
  "buildOutboundQAPrompt transcriptText =
     (if unusableText transcriptText then Inl ''Cannot analyze corrupted or empty transcript''
      else Inr (OutboundPrompt transcriptText))"

text \<open>Lines 196 to 198: the prompt for the direction of the call.\<close>

definition promptFor :: "string \<Rightarrow> string \<Rightarrow> string + prompt" where
  "promptFor callDirection transcriptText =
     (if callDirection = ''incoming'' then buildInboundQAPrompt transcriptText
      else buildOutboundQAPrompt transcriptText)"

text \<open>
  Lines 190 to 447: the prompt, the scoring call, the validation of its answer, the save.
  An exception of the prompt builder leaves before the scoring call is made.
\<close>

definition scoringPath ::
  "services \<Rightarrow> string \<Rightarrow> jsstr \<Rightarrow> string \<Rightarrow> string \<Rightarrow> world
     \<Rightarrow> (string + AnalyzeCallResult) \<times> world" where
  "scoringPath sv callId phoneNumberId callDirection transcriptText w =
     (case promptFor callDirection transcriptText of
        Inl msg \<Rightarrow> (Inl msg, w)
      | Inr prompt \<Rightarrow>
          (let w1 = w\<lparr>llmLog := llmLog w @ [prompt]\<rparr>
           in case sv_invokeLLM sv prompt of
                LLMThrows msg \<Rightarrow> (Inl msg, w1)
              | LLMNoContent \<Rightarrow> (Inl ''No response from LLM'', w1)
              | LLMBadJSON msg \<Rightarrow> (Inl msg, w1)
              | LLMParsed analysisResult \<Rightarrow>
                  if invalidScore (aj_score analysisResult)
                  then (Inl ''Invalid score in analysis result'', w1)
                  else
                    (case saveAnalysisToDatabase sv callId analysisResult phoneNumberId
                            (Some callDirection) w1 of
                       (Inl msg, w2) \<Rightarrow> (Inl msg, w2)
                     | (Inr u, w2) \<Rightarrow>
                         (Inr \<lparr>res_success = True, res_callId = callId,
                               res_analysis = Some (ScoredAnalysis analysisResult),
                               res_error = None\<rparr>, w2))))"

text \<open>The body of the \<^verbatim>\<open>try\<close> block: \<^const>\<open>Inl\<close> is an exception thrown inside it.\<close>

definition analyzeCallBody ::
  "services \<Rightarrow> AnalyzeCallOptions \<Rightarrow> world \<Rightarrow> (string + AnalyzeCallResult) \<times> world" where
  "analyzeCallBody sv options w =
     (let callId = opt_callId options
      in case db w of
           None \<Rightarrow> (Inl ''Database not available'', w)
         | Some d \<Rightarrow>
             (case selectCall d callId of
                None \<Rightarrow> (Inr (failure callId ''Call not found''), w)
              | Some call \<Rightarrow>
                  (case resolveTranscript d options of
                     None \<Rightarrow> (Inr (failure callId ''Transcript not found for this call''), w)
                   | Some (transcriptText, transcriptRecord) \<Rightarrow>
                       (let (hasContent, isBroken) = contentCheck transcriptText transcriptRecord
                        in if \<not> hasContent \<or> isBroken
                           then placeholderPath sv callId (opt_phoneNumberId options)
                                  isBroken w
                           else scoringPath sv callId (opt_phoneNumberId options)
                                  (or_else (opt_callDirection options) (cr_direction call))
                                  transcriptText w))))"

text \<open>\<^verbatim>\<open>analyzeCall\<close>: the \<^verbatim>\<open>catch\<close> turns every exception into a failure result.\<close>

definition analyzeCall ::
  "services \<Rightarrow> AnalyzeCallOptions \<Rightarrow> world \<Rightarrow> AnalyzeCallResult \<times> world" where
  "analyzeCall sv options w =
     (case analyzeCallBody sv options w of
        (Inl errorMessage, w1) \<Rightarrow> (failure (opt_callId options) errorMessage, w1)
      | (Inr result, w1) \<Rightarrow> (result, w1))"

subsection \<open>\<^verbatim>\<open>batchAnalyzeCalls\<close>\<close>

record BatchResult =
  total :: nat
  successful :: nat
  failed :: nat
  results :: "AnalyzeCallResult list"

text \<open>The \<^verbatim>\<open>for\<close> loop over the ids, with its three accumulators.\<close>

fun batchLoop ::
  "services \<Rightarrow> string list \<Rightarrow> AnalyzeCallResult list \<times> nat \<times> nat \<Rightarrow> world
     \<Rightarrow> (AnalyzeCallResult list \<times> nat \<times> nat) \<times> world" where
  "batchLoop sv [] acc w = (acc, w)"
| "batchLoop sv (callId # rest) (rs, ok, bad) w =
     (let (result, w1) =
            analyzeCall sv
              \<lparr>opt_callId = callId, opt_transcriptText = None, opt_callDirection = None,
               opt_phoneNumberId = Undefined\<rparr> w
      in batchLoop sv rest
           (rs @ [result], (if res_success result then ok + 1 else ok),
            (if res_success result then bad else bad + 1)) w1)"

definition batchAnalyzeCalls :: "services \<Rightarrow> string list \<Rightarrow> world \<Rightarrow> BatchResult \<times> world" where
  "batchAnalyzeCalls sv callIds w =
     (case batchLoop sv callIds ([], 0, 0) w of
        ((rs, ok, bad), w1) \<Rightarrow>
          (\<lparr>total = length callIds, successful = ok, failed = bad, results = rs\<rparr>, w1))"

section \<open>Ingestion pipeline, poll (sync.ts)\<close>













section \<open>Ingestion pipeline, push (webhook router)\<close>

text \<open>
  The call object of an event, with the fields the handler reads. The body is untyped JSON:
  a field the handler compares, renders or stores as it is may be absent, \<^verbatim>\<open>null\<close> or a
  string (\<^typ>\<open>jsstr\<close>); a field it only tests for truthiness is \<^const>\<open>None\<close> when it is
  absent or \<^verbatim>\<open>null\<close>. \<open>p_transcriptDialogue\<close> is \<^verbatim>\<open>transcript?.dialogue\<close>.
\<close>

record CallPayload =
  p_id :: jsstr
  p_callId :: jsstr
  p_phoneNumberId :: jsstr
  p_direction :: jsstr
  p_duration :: "int option"
  p_status :: jsstr
  p_dialogue :: "DialogueItem list option"
  p_transcriptDialogue :: "DialogueItem list option"
  p_from :: "string option"
  p_to :: "string option"
  p_participants :: "string list option"
  p_createdAt :: "string option"
  p_answeredAt :: "string option"
  p_completedAt :: "string option"
  p_userId :: jsstr
  p_answeredBy :: jsstr
  p_initiatedBy :: jsstr

text \<open>\<^verbatim>\<open>data\<close>: the call fields directly, or wrapped under \<^verbatim>\<open>object\<close>.\<close>

record EventData =
  ed_object :: "CallPayload option"
  ed_fields :: CallPayload

record WebhookBody =
  wb_type :: jsstr
  wb_data :: "EventData option"

text \<open>The request: \<^verbatim>\<open>req.body\<close> may be missing.\<close>

record Request =
  req_body :: "WebhookBody option"

text \<open>
  The response: the status code and the fields of the JSON acknowledgment. A field is
  \<^const>\<open>None\<close> when the handler does not put it in the object.
\<close>

record Response =
  resp_status :: nat
  resp_received :: bool
  resp_processed :: "bool option"
  resp_reason :: "string option"
  resp_callId :: jsstr
  resp_willAnalyze :: "bool option"
  resp_phoneLine :: "string option"
  resp_error :: "string option"

text \<open>The local variables the handler fills from either event shape (lines 342 to 477).\<close>

record Extracted =
  ex_callId :: jsstr
  ex_phoneNumberId :: jsstr
  ex_direction :: jsstr
  ex_duration :: int
  ex_status :: jsstr
  ex_fromNumber :: string
  ex_toNumber :: string
  ex_participants :: "string list"
  ex_dialogue :: "DialogueItem list"
  ex_createdAt :: string
  ex_answeredAt :: "string option"
  ex_completedAt :: "string option"
  ex_userId :: jsstr
  ex_answeredBy :: jsstr
  ex_initiatedBy :: jsstr

text \<open>\<^verbatim>\<open>data?.object || data\<close>.\<close>

definition callDataOfEvent :: "EventData option \<Rightarrow> CallPayload option" where
  "callDataOfEvent data =
     (case data of
        None \<Rightarrow> None
      | Some ed \<Rightarrow> (case ed_object ed of Some obj \<Rightarrow> Some obj | None \<Rightarrow> Some (ed_fields ed)))"

text \<open>\<^verbatim>\<open>a || b\<close> on two possibly missing arrays: an array is truthy even when empty.\<close>

definition firstDefined :: "'a option \<Rightarrow> 'a option \<Rightarrow> 'a option" where
  "firstDefined a b = (case a of Some x \<Rightarrow> Some x | None \<Rightarrow> b)"

text \<open>\<^verbatim>\<open>v ? new Date(v) : new Date()\<close>, with the clock reading \<open>now\<close>.\<close>

definition dateOrNow :: "string \<Rightarrow> string option \<Rightarrow> string" where
  "dateOrNow now v = or_else v now"

text \<open>
  The \<^verbatim>\<open>call.transcript.completed\<close> branch (lines 358 to 413). The three variables it
  does not assign stay \<^verbatim>\<open>undefined\<close>.
\<close>

definition extractTranscriptCompleted :: "string \<Rightarrow> EventData \<Rightarrow> CallPayload \<Rightarrow> Extracted" where
  "extractTranscriptCompleted now data callData =
     \<lparr>ex_callId = orJ (p_callId callData) (p_id callData),
      ex_phoneNumberId = p_phoneNumberId callData,
      ex_direction = p_direction callData,
      ex_duration = num_or_zero (p_duration callData),
      ex_status = Str (orElseJ (p_status callData) ''completed''),
      ex_fromNumber = or_else (p_from callData) [],
      ex_toNumber = or_else (p_to callData) [],
      ex_participants = (case p_participants callData of None \<Rightarrow> [] | Some ps \<Rightarrow> ps),
      ex_dialogue =
        (case firstDefined (p_dialogue callData)
                (firstDefined (p_transcriptDialogue callData) (p_dialogue (ed_fields data))) of
           None \<Rightarrow> []
         | Some dialogue \<Rightarrow> dialogue),
      ex_createdAt = dateOrNow now (p_createdAt callData),
      ex_answeredAt = None,
      ex_completedAt = Some (dateOrNow now (p_completedAt callData)),
      ex_userId = Undefined,
      ex_answeredBy = Undefined,
      ex_initiatedBy = Undefined\<rparr>"

text \<open>The \<^verbatim>\<open>call.completed\<close> branch (lines 414 to 477).\<close>

definition extractCallCompleted :: "string \<Rightarrow> CallPayload \<Rightarrow> Extracted" where
  "extractCallCompleted now callData =
     (let direction = p_direction callData;
          participants = (case p_participants callData of None \<Rightarrow> [] | Some ps \<Rightarrow> ps);
          first = nthOpt participants 0;
          second = nthOpt participants 1
      in \<lparr>ex_callId = p_id callData,
          ex_phoneNumberId = p_phoneNumberId callData,
          ex_direction = direction,
          ex_duration = num_or_zero (p_duration callData),
          ex_status = p_status callData,
          ex_fromNumber =
            (if direction = Str ''incoming'' then or_else (or_opt second (p_from callData)) []
             else or_else (or_opt first (p_from callData)) []),
          ex_toNumber =
            (if direction = Str ''incoming'' then or_else (or_opt first (p_to callData)) []
             else or_else (or_opt second (p_to callData)) []),
          ex_participants = participants,
          ex_dialogue =
            (case firstDefined (p_transcriptDialogue callData) (p_dialogue callData) of
               None \<Rightarrow> []
             | Some dialogue \<Rightarrow> dialogue),
          ex_createdAt = dateOrNow now (p_createdAt callData),
          ex_answeredAt = orNull (p_answeredAt callData),
          ex_completedAt = orNull (p_completedAt callData),
          ex_userId = p_userId callData,
          ex_answeredBy = p_answeredBy callData,
          ex_initiatedBy = p_initiatedBy callData\<rparr>)"

text \<open>
  The heartbeat row (lines 294 to 308); skipped when there is no database handle. Its call
  id is \<^verbatim>\<open>callData?.id || callData?.callId || null\<close>.
\<close>

definition trackHealth :: "string \<Rightarrow> jsstr \<Rightarrow> CallPayload option \<Rightarrow> world \<Rightarrow> world" where
  "trackHealth now type callData w =
     (case db w of
        None \<Rightarrow> w
      | Some d \<Rightarrow>
          w\<lparr>db := Some (d\<lparr>webhookHealth := webhookHealth d @
                 [\<lparr>wh_lastWebhookReceived = now, wh_eventType = columnOf type,
                   wh_callId = (case callData of
                                  None \<Rightarrow> None
                                | Some c \<Rightarrow>
                                    (let v = orJ (p_id c) (p_callId c)
                                     in if truthyJ v then columnOf v else None))\<rparr>]\<rparr>)\<rparr>)"

text \<open>
  What the store does with a missing value, as far as the handler relies on it: it refuses
  a query whose key is \<^verbatim>\<open>undefined\<close>; a key \<^verbatim>\<open>null\<close> matches no row; it refuses to
  write \<^verbatim>\<open>null\<close>, or nothing at all on an insert, into a \<^verbatim>\<open>NOT NULL\<close> column without
  a default (\<^verbatim>\<open>callId\<close>, \<^verbatim>\<open>direction\<close>, \<^verbatim>\<open>status\<close>); an update leaves a column alone
  whose new value is \<^verbatim>\<open>undefined\<close>. The handler catches the error and only logs it, so
  its text does not matter.
\<close>

definition storeRejects :: string where
  "storeRejects = ''query rejected by the store''"

text \<open>Lines 523 to 603: the call upsert of the handler.\<close>

definition saveWebhookCall ::
  "string \<Rightarrow> string \<Rightarrow> Extracted \<Rightarrow> routing \<Rightarrow> world \<Rightarrow> (string + unit) \<times> world" where
  "saveWebhookCall now type ex rt w =
     (case db w of
        None \<Rightarrow> (Inl ''Database not available'', w)
      | Some d \<Rightarrow>
          (let metadata = WebhookMeta
                 \<lparr>wm_phoneLine = phoneLine rt, wm_shouldAnalyze = shouldAnalyze rt,
                  wm_filterReason = filterReason rt, wm_answeredBy = ex_answeredBy ex,
                  wm_initiatedBy = ex_initiatedBy ex, wm_webhookReceivedAt = now,
                  wm_webhookEventType = type,
                  wm_participants = ex_participants ex,
                  wm_hasTranscript = (length (ex_dialogue ex) > 0)\<rparr>
           in case ex_callId ex of
                Undefined \<Rightarrow> (Inl storeRejects, w)
              | Null \<Rightarrow> (Inl storeRejects, w)
              | Str callId \<Rightarrow>
                  (case selectCall d callId of
                     Some existing \<Rightarrow>
                       if ex_status ex = Null then (Inl storeRejects, w)
                       else
                         (Inr (),
                          w\<lparr>db := Some (updateCalls callId
                            (\<lambda>r. r\<lparr>cr_status := (case ex_status ex of Str st \<Rightarrow> st | _ \<Rightarrow> cr_status r),
                                    cr_completedAt := ex_completedAt ex,
                                    cr_duration := ex_duration ex,
                                    cr_phoneNumberId :=
                                      (if truthyJ (ex_phoneNumberId ex)
                                       then columnOf (ex_phoneNumberId ex)
                                       else cr_phoneNumberId existing),
                                    cr_fromNumber :=
                                      or_else (Some (ex_fromNumber ex)) (cr_fromNumber existing),
                                    cr_toNumber :=
                                      or_else (Some (ex_toNumber ex)) (cr_toNumber existing),
                                    cr_direction :=
                                      orElseJ (ex_direction ex) (cr_direction existing),
                                    cr_metadata := metadata\<rparr>) d)\<rparr>)
                   | None \<Rightarrow>
                       (case (ex_direction ex, ex_status ex) of
                          (Str direction, Str status) \<Rightarrow>
                            (Inr (),
                             w\<lparr>db := Some (insertCall
                               \<lparr>cr_callId = callId, cr_direction = direction,
                                cr_fromNumber = ex_fromNumber ex, cr_toNumber = ex_toNumber ex,
                                cr_duration = ex_duration ex, cr_status = status,
                                cr_createdAt = ex_createdAt ex,
                                cr_answeredAt = ex_answeredAt ex,
                                cr_completedAt = ex_completedAt ex,
                                cr_phoneNumberId = columnOf (ex_phoneNumberId ex),
                                cr_userId = columnOf (ex_userId ex),
                                cr_metadata = metadata\<rparr> d)\<rparr>)
                        | _ \<Rightarrow> (Inl storeRejects, w)))))"

definition typeError :: string where
  "typeError = ''TypeError: Cannot read properties of undefined''"

text \<open>
  The part of the handler that runs before the response is sent (lines 275 to 612):
  \<^const>\<open>Inl\<close> is an exception reaching the outer \<^verbatim>\<open>catch\<close>; \<^const>\<open>Inr\<close> is the
  response sent, with what the work after the response needs (whether the event is
  \<^verbatim>\<open>call.completed\<close>, the extracted fields, the routing decision).
\<close>

definition handlerSync ::
  "services \<Rightarrow> string \<Rightarrow> Request \<Rightarrow> world
     \<Rightarrow> (string + Response \<times> (bool \<times> Extracted \<times> routing) option) \<times> world" where
  "handlerSync sv now req w =
     (case req_body req of
        None \<Rightarrow> (Inl typeError, w)
      | Some body \<Rightarrow>
          (let type = wb_type body;
               data = wb_data body;
               callData = callDataOfEvent data;
               w1 = trackHealth now type callData w;
               isCallCompleted = (type = Str ''call.completed'');
               isTranscriptCompleted = (type = Str ''call.transcript.completed'')
           in if \<not> isCallCompleted \<and> \<not> isTranscriptCompleted
              then (Inr (\<lparr>resp_status = 200, resp_received = True, resp_processed = Some False,
                          resp_reason = Some (''Not a call event (type: '' @ showJ type @ '')''),
                          resp_callId = Undefined, resp_willAnalyze = None,
                          resp_phoneLine = None, resp_error = None\<rparr>, None), w1)
              else
                (case (data, callData) of
                   (Some ed, Some cd) \<Rightarrow>
                     (let ex = (if isTranscriptCompleted then extractTranscriptCompleted now ed cd
                                else extractCallCompleted now cd);
                          rt = webhookRouting (sv_config sv) (ex_phoneNumberId ex) (ex_direction ex)
                                 (ex_duration ex);
                          w2 = snd (saveWebhookCall now (showJ type) ex rt w1)
                      in (Inr (\<lparr>resp_status = 200, resp_received = True,
                                resp_processed = Some True, resp_reason = None,
                                resp_callId = ex_callId ex,
                                resp_willAnalyze = Some (shouldAnalyze rt),
                                resp_phoneLine = Some (phoneLine rt), resp_error = None\<rparr>,
                               Some (isCallCompleted, ex, rt)), w2))
                 | _ \<Rightarrow> (Inl typeError, w1))))"

text \<open>Lines 621 to 703: the transcript upsert from the event's dialogue.\<close>

definition saveWebhookTranscript :: "Extracted \<Rightarrow> world \<Rightarrow> (string + string) \<times> world" where
  "saveWebhookTranscript ex w =
     (case db w of
        None \<Rightarrow> (Inl ''Database not available'', w)
      | Some d \<Rightarrow>
          (case webhookNormalize (ex_dialogue ex) of
             Inl msg \<Rightarrow> (Inl msg, w)
           | Inr n \<Rightarrow>
               (case ex_callId ex of
                  Undefined \<Rightarrow> (Inl storeRejects, w)
                | Null \<Rightarrow> (Inl storeRejects, w)
                | Str callId \<Rightarrow>
                    (case selectTranscript d callId of
                       Some existing \<Rightarrow>
                         if ex_status ex = Null then (Inl storeRejects, w)
                         else
                           (Inr callId,
                            w\<lparr>db := Some (updateTranscripts callId
                              (\<lambda>r. \<lparr>tr_callId = callId, tr_fullText = n_fullText n,
                                    tr_jsonPayload = Some \<lparr>segments = Some (n_segments n)\<rparr>,
                                    tr_duration = Some (ex_duration ex),
                                    tr_status =
                                      (case ex_status ex of Str st \<Rightarrow> st | _ \<Rightarrow> tr_status r)\<rparr>)
                              d)\<rparr>)
                     | None \<Rightarrow>
                         (case ex_status ex of
                            Str status \<Rightarrow>
                              (Inr callId,
                               w\<lparr>db := Some (insertTranscript
                                 \<lparr>tr_callId = callId, tr_fullText = n_fullText n,
                                  tr_jsonPayload = Some \<lparr>segments = Some (n_segments n)\<rparr>,
                                  tr_duration = Some (ex_duration ex),
                                  tr_status = status\<rparr> d)\<rparr>)
                          | _ \<Rightarrow> (Inl storeRejects, w))))))"

text \<open>
  The handler's own \<^verbatim>\<open>fetchTranscriptForCall\<close> (lines 201 to 270) is the one of sync.ts
  line for line, but the handler may call it with an id that is not a string. The request
  then goes out for the rendered id. With the id \<^verbatim>\<open>undefined\<close> the store refuses the
  lookup that follows a usable response; with \<^verbatim>\<open>null\<close> the lookup finds no row and the
  transcript is inserted under the id of the response.
\<close>

definition webhookFetchTranscriptForCall ::
  "services \<Rightarrow> jsstr \<Rightarrow> world \<Rightarrow> (string + bool) \<times> world" where
  "webhookFetchTranscriptForCall sv callId w =
     (case callId of
        Str c \<Rightarrow> fetchTranscriptForCall sv c w
      | _ \<Rightarrow>
          (case db w of
             None \<Rightarrow> (Inl ''Database not available'', w)
           | Some d \<Rightarrow>
               (let w1 = w\<lparr>fetchLog := fetchLog w @ [showJ callId]\<rparr>
                in case sv_fetchTranscript sv (showJ callId) of
                     Inl msg \<Rightarrow>
                       if str_includes msg ''404'' then (Inr False, w1) else (Inl msg, w1)
                   | Inr None \<Rightarrow> (Inr False, w1)
                   | Inr (Some transcript) \<Rightarrow>
                       (case t_dialogue transcript of
                          None \<Rightarrow> (Inr False, w1)
                        | Some dialogue \<Rightarrow>
                            if length dialogue = 0 then (Inr False, w1)
                            else if callId = Null
                            then (Inr True,
                                  w1\<lparr>db := Some (insertTranscript
                                          (pollTranscriptData transcript dialogue) d)\<rparr>)
                            else (Inl storeRejects, w1)))))"

text \<open>\<^verbatim>\<open>analyzeCall({ callId, phoneNumberId })\<close>.\<close>

definition analyzeOptions :: "string \<Rightarrow> jsstr \<Rightarrow> AnalyzeCallOptions" where
  "analyzeOptions callId phoneNumberId =
     \<lparr>opt_callId = callId, opt_transcriptText = None, opt_callDirection = None,
      opt_phoneNumberId = phoneNumberId\<rparr>"

text \<open>
  The work after the response (lines 614 to 748); its exceptions are logged only. The
  fetch of the other branch runs from a timer eight seconds later; the delay is not
  modelled. After a fetch under the id \<^verbatim>\<open>null\<close> the dispatcher looks up the call under
  \<^verbatim>\<open>null\<close>, finds none and returns \<^verbatim>\<open>Call not found\<close>, which changes nothing.
\<close>

definition handlerAsync ::
  "services \<Rightarrow> bool \<Rightarrow> Extracted \<Rightarrow> routing \<Rightarrow> world \<Rightarrow> world" where
  "handlerAsync sv isCallCompleted ex rt w =
     (if length (ex_dialogue ex) > 0 then
        (case saveWebhookTranscript ex w of
           (Inl msg, w1) \<Rightarrow> w1
         | (Inr callId, w1) \<Rightarrow>
             if shouldAnalyze rt
             then snd (analyzeCall sv (analyzeOptions callId (ex_phoneNumberId ex)) w1)
             else w1)
      else if shouldAnalyze rt \<and> isCallCompleted then
        (case webhookFetchTranscriptForCall sv (ex_callId ex) w of
           (Inl msg, w1) \<Rightarrow> w1
         | (Inr transcriptSaved, w1) \<Rightarrow>
             if transcriptSaved
             then (case ex_callId ex of
                     Str callId \<Rightarrow>
                       snd (analyzeCall sv (analyzeOptions callId (ex_phoneNumberId ex)) w1)
                   | _ \<Rightarrow> w1)
             else w1)
      else w)"

text \<open>
  The handler: the response sent to the provider and the world after all its work. The
  outer \<^verbatim>\<open>catch\<close> answers 200 as well.
\<close>

definition webhookHandler :: "services \<Rightarrow> string \<Rightarrow> Request \<Rightarrow> world \<Rightarrow> Response \<times> world" where
  "webhookHandler sv now req w =
     (case handlerSync sv now req w of
        (Inl msg, w1) \<Rightarrow>
          (\<lparr>resp_status = 200, resp_received = True, resp_processed = None,
            resp_reason = None, resp_callId = Undefined, resp_willAnalyze = None,
            resp_phoneLine = None, resp_error = Some ''Internal processing error''\<rparr>, w1)
      | (Inr (response, None), w1) \<Rightarrow> (response, w1)
      | (Inr (response, Some (isCallCompleted, ex, rt)), w1) \<Rightarrow>
          (response, handlerAsync sv isCallCompleted ex rt w1))"

section \<open>Example data\<close>

text \<open>Concrete inputs on which the properties below are instantiated.\<close>

definition exConfig :: config where
  "exConfig = \<lparr>envMainPhoneId = Some ''PNVbbBqeqM'', envOutboundPhoneId = Some ''PNBANAZERt''\<rparr>"

definition exCall :: "string \<Rightarrow> string \<Rightarrow> string \<Rightarrow> int \<Rightarrow> OpenPhoneCall" where
  "exCall cid line direction duration =
     \<lparr>call_id = cid, call_phoneNumberId = line, call_userId = ''US1'',
      call_direction = direction, call_status = ''completed'',
      call_participants = [''+14125550100'', ''+14125550199''],
      call_duration = Some duration, call_createdAt = ''2025-01-15T10:00:00Z'',
      call_completedAt = Some ''2025-01-15T10:01:00Z'',
      call_answeredAt = Some ''2025-01-15T10:00:05Z'',
      call_from = None, call_to = None\<rparr>"

definition exItem :: "string option \<Rightarrow> string option \<Rightarrow> DialogueItem" where
  "exItem content identifier =
     \<lparr>d_content = content, d_start = Some 0, d_end = Some 2,
      d_identifier = identifier, d_userId = None\<rparr>"

definition emptyDatabase :: database where
  "emptyDatabase = \<lparr>calls = [], transcripts = [], analyses = [], webhookHealth = []\<rparr>"

definition emptyWorld :: world where
  "emptyWorld = \<lparr>db = Some emptyDatabase, llmLog = [], fetchLog = []\<rparr>"

definition exTranscriptRow :: "string \<Rightarrow> string \<Rightarrow> TranscriptRow" where
  "exTranscriptRow cid fullText =
     \<lparr>tr_callId = cid, tr_fullText = fullText,
      tr_jsonPayload = Some \<lparr>segments = Some []\<rparr>,
      tr_duration = Some 45, tr_status = ''completed''\<rparr>"

text \<open>A store holding the main-line call \<^verbatim>\<open>AC1\<close> and the given transcripts.\<close>

definition worldWith :: "TranscriptRow list \<Rightarrow> world" where
  "worldWith ts =
     \<lparr>db = Some \<lparr>calls = [callDataOf (exCall ''AC1'' ''PNVbbBqeqM'' ''incoming'' 45)],
                  transcripts = ts, analyses = [], webhookHealth = []\<rparr>,
      llmLog = [], fetchLog = []\<rparr>"

definition exOptions :: "string \<Rightarrow> AnalyzeCallOptions" where
  "exOptions cid =
     \<lparr>opt_callId = cid, opt_transcriptText = None, opt_callDirection = None,
      opt_phoneNumberId = Str ''PNVbbBqeqM''\<rparr>"

text \<open>A parsed scoring answer with the given score.\<close>

definition exAnswer :: "jsval \<Rightarrow> AnalysisJson" where
  "exAnswer score =
     \<lparr>aj_score = score, aj_summary = Some ''Caller asked for a quote.'',
      aj_sentiment = Some ''Positive'', aj_complianceChecks = None,
      aj_coachingNotes = None, aj_outcome = None, aj_breakdownPoint = None,
      aj_keyActionItems = None, aj_appointmentScheduled = None,
      aj_callbackScheduled = None\<rparr>"

definition noTranscript :: "string \<Rightarrow> string + OpenPhoneTranscript option" where
  "noTranscript cid = Inl ''OpenPhone API error (404): Not found''"

definition noCalls :: "FetchParams \<Rightarrow> string + CallsResponse" where
  "noCalls params = Inr \<lparr>resp_data = [], resp_nextPageToken = None\<rparr>"

text \<open>A store that rounds to the nearest whole number, a half upwards.\<close>

definition halfUp :: "rat \<Rightarrow> bool" where
  "halfUp x = (x - of_int \<lfloor>x\<rfloor> \<ge> 1 / 2)"

text \<open>Services whose scoring function answers every prompt with the given outcome.\<close>

definition constantScorer :: "llm_outcome \<Rightarrow> prompt \<Rightarrow> llm_outcome" where
  "constantScorer outcome request = outcome"

definition servicesAnswering :: "llm_outcome \<Rightarrow> services" where
  "servicesAnswering outcome =
     \<lparr>sv_config = exConfig, sv_roundsUp = halfUp, sv_invokeLLM = constantScorer outcome,
      sv_fetchTranscript = noTranscript, sv_fetchCalls = noCalls\<rparr>"

definition helloText :: string where
  "helloText = ''+14125550100: Hello, I need a quote.''"

text \<open>A world in which \<^verbatim>\<open>getDb()\<close> yields no handle.\<close>

definition offlineWorld :: world where
  "offlineWorld = \<lparr>db = None, llmLog = [], fetchLog = []\<rparr>"

text \<open>
  A transcript response whose two dialogue items have empty content and no speaker, and
  services that return it for every call.
\<close>

definition silentDialogue :: "DialogueItem list" where
  "silentDialogue = [exItem (Some []) None, exItem (Some []) None]"

definition silentTranscript :: "string \<Rightarrow> string + OpenPhoneTranscript option" where
  "silentTranscript cid =
     Inr (Some \<lparr>t_callId = cid, t_duration = Some 45, t_status = ''completed'',
                t_dialogue = Some silentDialogue\<rparr>)"

definition silentServices :: services where
  "silentServices =
     \<lparr>sv_config = exConfig, sv_roundsUp = halfUp, sv_invokeLLM = constantScorer (LLMParsed (exAnswer (JNum 85))),
      sv_fetchTranscript = silentTranscript, sv_fetchCalls = noCalls\<rparr>"

text \<open>
  A poll run over one page of two completed main-line calls. The transcript request fails
  for the outgoing call \<^verbatim>\<open>AC1\<close> and succeeds for the incoming call \<^verbatim>\<open>AC2\<close>.
\<close>

definition twoCalls :: "OpenPhoneCall list" where
  "twoCalls = [exCall ''AC1'' ''PNVbbBqeqM'' ''outgoing'' 45,
               exCall ''AC2'' ''PNVbbBqeqM'' ''incoming'' 45]"

definition onePage :: "FetchParams \<Rightarrow> string + CallsResponse" where
  "onePage params = Inr \<lparr>resp_data = twoCalls, resp_nextPageToken = None\<rparr>"

definition flakyTranscript :: "string \<Rightarrow> string + OpenPhoneTranscript option" where
  "flakyTranscript cid =
     (if cid = ''AC1'' then Inl ''OpenPhone API error (500): upstream failure''
      else Inr (Some \<lparr>t_callId = cid, t_duration = Some 45, t_status = ''completed'',
                     t_dialogue = Some [exItem (Some ''Hello, I need a quote.'')
                                          (Some ''+14125550100'')]\<rparr>))"

definition flakyServices :: services where
  "flakyServices =
     \<lparr>sv_config = exConfig, sv_roundsUp = halfUp, sv_invokeLLM = constantScorer (LLMParsed (exAnswer (JNum 85))),
      sv_fetchTranscript = flakyTranscript, sv_fetchCalls = onePage\<rparr>"


text \<open>A webhook event for the incoming main-line call \<^verbatim>\<open>AC2\<close>, with one line of dialogue.\<close>

definition exPayload :: CallPayload where
  "exPayload =
     \<lparr>p_id = Str ''AC2'', p_callId = Undefined, p_phoneNumberId = Str ''PNVbbBqeqM'',
      p_direction = Str ''incoming'', p_duration = Some 45, p_status = Str ''completed'',
      p_dialogue = Some [exItem (Some ''Hello, I need a quote.'') (Some ''+14125550100'')],
      p_transcriptDialogue = None, p_from = None, p_to = None,
      p_participants = Some [''+14125550199'', ''+14125550100''],
      p_createdAt = Some ''2025-01-15T10:00:00Z'', p_answeredAt = None,
      p_completedAt = Some ''2025-01-15T10:01:00Z'', p_userId = Str ''US1'',
      p_answeredBy = Null, p_initiatedBy = Null\<rparr>"

definition exRequest :: "string \<Rightarrow> EventData option \<Rightarrow> Request" where
  "exRequest type data = \<lparr>req_body = Some \<lparr>wb_type = Str type, wb_data = data\<rparr>\<rparr>"

definition exNow :: string where
  "exNow = ''2025-01-15T10:02:00Z''"

text \<open>A configuration with neither line variable set, and one naming the same line twice.\<close>

definition unsetConfig :: config where
  "unsetConfig = \<lparr>envMainPhoneId = None, envOutboundPhoneId = None\<rparr>"

definition oneLineConfig :: config where
  "oneLineConfig = \<lparr>envMainPhoneId = Some ''PN1'', envOutboundPhoneId = Some ''PN1''\<rparr>"

text \<open>A stored transcript with an empty text and one segment that has a speaker and text.\<close>

definition textlessRow :: "string \<Rightarrow> TranscriptRow" where
  "textlessRow cid =
     \<lparr>tr_callId = cid, tr_fullText = [],
      tr_jsonPayload =
        Some \<lparr>segments = Some [\<lparr>seg_start = Some 0, seg_end = Some 2,
                                  seg_speaker = Some ''+14125550100'',
                                  seg_text = Some ''Hello, I need a quote.''\<rparr>]\<rparr>,
      tr_duration = Some 45, tr_status = ''completed''\<rparr>"

section \<open>Properties\<close>

subsection \<open>Facts about the store operations\<close>

lemma find_snoc_None:
  "find P xs = None \<Longrightarrow> find P (xs @ [x]) = (if P x then Some x else None)"
  by (induction xs) (auto split: if_splits)

lemma filter_find_None: "find P xs = None \<Longrightarrow> filter P xs = []"
  by (induction xs) (auto split: if_splits)

lemma map_upd_find_None: "find P xs = None \<Longrightarrow> map (\<lambda>r. if P r then f r else r) xs = xs"
  by (induction xs) (auto split: if_splits)

lemma find_map_upd:
  "find P xs = Some x \<Longrightarrow> P (f x) \<Longrightarrow> find P (map (\<lambda>r. if P r then f r else r) xs) = Some (f x)"
  by (induction xs) (auto split: if_splits)

subsection \<open>Facts about the dispatcher\<close>

lemma analyzeCall_callId [simp]: "res_callId (fst (analyzeCall sv options w)) = opt_callId options"
  by (auto simp: analyzeCall_def analyzeCallBody_def failure_def placeholderPath_def
      scoringPath_def Let_def split: prod.splits sum.splits option.splits llm_outcome.splits if_splits)

lemma an_callId_analysisDataOf [simp]:
  "an_callId (analysisDataOf sv cid a p dir) = cid"
  by (simp add: analysisDataOf_def Let_def)

lemma intColumn_whole: "intColumn up (of_int n) = n"
  by (simp add: intColumn_def)

lemma intColumn_zero: "intColumn up 0 = 0"
  by (simp add: intColumn_def)

lemma intColumn_range:
  assumes "0 \<le> x" and "x \<le> 100"
  shows "0 \<le> intColumn up x \<and> intColumn up x \<le> 100"
proof -
  have "0 \<le> \<lfloor>x\<rfloor>" using assms(1) by simp
  moreover have "\<lfloor>x\<rfloor> \<le> \<lceil>x\<rceil>" by (rule floor_le_ceiling)
  moreover have "\<lceil>x\<rceil> \<le> 100" using assms(2) by (simp add: ceiling_le_iff)
  ultimately show ?thesis by (simp add: intColumn_def)
qed

lemma saveAnalysis_available:
  assumes "db w = Some d"
  obtains d1 where
    "saveAnalysisToDatabase sv cid a p dir w = (Inr (), w\<lparr>db := Some d1\<rparr>)"
    "selectAnalysis d1 cid = Some (analysisDataOf sv cid a p dir)"
proof (cases "selectAnalysis d cid")
  case None
  show ?thesis
    by (rule that [of "insertAnalysis (analysisDataOf sv cid a p dir) d"])
      (use assms None in \<open>simp_all add: saveAnalysisToDatabase_def Let_def selectAnalysis_def
        insertAnalysis_def find_snoc_None\<close>)
next
  case (Some existing)
  show ?thesis
    by (rule that [of "updateAnalyses cid (\<lambda>r. analysisDataOf sv cid a p dir) d"])
      (use assms Some in \<open>simp_all add: saveAnalysisToDatabase_def Let_def selectAnalysis_def
        updateAnalyses_def find_map_upd\<close>)
qed

lemma saveAnalysis_unavailable:
  "db w = None \<Longrightarrow>
     saveAnalysisToDatabase sv cid a p dir w = (Inl ''Database not available'', w)"
  by (simp add: saveAnalysisToDatabase_def)

lemma placeholderPath_available:
  assumes "db w = Some d"
  obtains d2 row r where
    "placeholderPath sv cid p isBroken w = (Inr r, w\<lparr>db := Some d2\<rparr>)"
    "res_success r" "res_callId r = cid" "resultScore r = Some (JNum 0)"
    "selectAnalysis d2 cid = Some row" "an_score row = 0" "an_complianceCheck row = Review"
proof -
  obtain d1 where
    save: "saveAnalysisToDatabase sv cid (placeholderInput isBroken) p None w
             = (Inr (), w\<lparr>db := Some d1\<rparr>)"
    and sel: "selectAnalysis d1 cid = Some (analysisDataOf sv cid (placeholderInput isBroken) p None)"
    using saveAnalysis_available [OF assms] by blast
  let ?f = "\<lambda>r. r\<lparr>an_score := intColumn (sv_roundsUp sv) 0, an_sentiment := None, an_complianceCheck := Review,
                   an_complianceNotes := Some (placeholderNotes isBroken),
                   an_metadata := noContentMetadata (sv_config sv) p isBroken\<rparr>"
  have sel2: "selectAnalysis (updateAnalyses cid ?f d1) cid
          = Some (?f (analysisDataOf sv cid (placeholderInput isBroken) p None))"
    using sel by (simp add: selectAnalysis_def updateAnalyses_def find_map_upd)
  let ?r = "\<lparr>res_success = True, res_callId = cid,
             res_analysis = Some (PlaceholderAnalysis
               \<lparr>nca_score = 0, nca_summary = placeholderSummary isBroken,
                nca_complianceCheck = Review,
                nca_complianceNotes = placeholderNotes isBroken,
                nca_metadata = noContentMetadata (sv_config sv) p isBroken\<rparr>),
             res_error = None\<rparr>"
  have run: "placeholderPath sv cid p isBroken w
               = (Inr ?r, w\<lparr>db := Some (updateAnalyses cid ?f d1)\<rparr>)"
    by (simp add: placeholderPath_def save Let_def)
  show ?thesis
    by (rule that [OF run _ _ _ sel2]) (simp_all add: resultScore_def intColumn_zero)
qed

lemma classify_not_Valid:
  "classify text rec \<noteq> Valid \<longleftrightarrow> \<not> fst (contentCheck text rec) \<or> snd (contentCheck text rec)"
  by (simp add: classify_def Let_def split: prod.splits)

lemma analyzeCallBody_scoring:
  assumes "db w = Some d"
    and "selectCall d (opt_callId options) = Some call"
    and "resolveTranscript d options = Some (text, rec)"
    and "classify text rec = Valid"
  shows "analyzeCallBody sv options w =
           scoringPath sv (opt_callId options) (opt_phoneNumberId options)
             (or_else (opt_callDirection options) (cr_direction call)) text w"
proof -
  obtain hasContent isBroken where cc: "contentCheck text rec = (hasContent, isBroken)"
    by (cases "contentCheck text rec")
  with assms(4) have "hasContent \<and> \<not> isBroken"
    by (auto simp: classify_def Let_def split: if_splits)
  then show ?thesis
    using assms(1,2,3) cc by (simp add: analyzeCallBody_def Let_def)
qed

lemma scoringPath_unbuilt:
  "promptFor dir body = Inl msg \<Longrightarrow> scoringPath sv cid p dir body w = (Inl msg, w)"
  by (simp add: scoringPath_def)

lemma scoringPath_invalid:
  assumes "promptFor dir body = Inr request"
    and "sv_invokeLLM sv request = LLMParsed a" and "invalidScore (aj_score a)"
  shows "scoringPath sv cid p dir body w =
           (Inl ''Invalid score in analysis result'', w\<lparr>llmLog := llmLog w @ [request]\<rparr>)"
  using assms by (simp add: scoringPath_def Let_def)

lemma scoringPath_valid:
  assumes "db w = Some d" and "promptFor dir body = Inr request"
    and "sv_invokeLLM sv request = LLMParsed a" and "\<not> invalidScore (aj_score a)"
  obtains d1 where
    "scoringPath sv cid p dir body w =
       (Inr \<lparr>res_success = True, res_callId = cid, res_analysis = Some (ScoredAnalysis a),
             res_error = None\<rparr>,
        w\<lparr>llmLog := llmLog w @ [request], db := Some d1\<rparr>)"
    "selectAnalysis d1 cid = Some (analysisDataOf sv cid a p (Some dir))"
proof -
  let ?w1 = "w\<lparr>llmLog := llmLog w @ [request]\<rparr>"
  have "db ?w1 = Some d" using assms(1) by simp
  then obtain d1 where
    save: "saveAnalysisToDatabase sv cid a p (Some dir) ?w1 = (Inr (), ?w1\<lparr>db := Some d1\<rparr>)"
    and sel: "selectAnalysis d1 cid = Some (analysisDataOf sv cid a p (Some dir))"
    using saveAnalysis_available by blast
  have "scoringPath sv cid p dir body w =
       (Inr \<lparr>res_success = True, res_callId = cid, res_analysis = Some (ScoredAnalysis a),
             res_error = None\<rparr>,
        w\<lparr>llmLog := llmLog w @ [request], db := Some d1\<rparr>)"
    using assms(2,3,4) save by (simp add: scoringPath_def Let_def)
  then show ?thesis using sel that by blast
qed

lemma valid_score_range:
  "\<not> invalidScore v \<Longrightarrow> \<exists>s. v = JNum s \<and> 0 \<le> s \<and> s \<le> 100"
  by (cases v) (auto simp: invalidScore_def)

lemma an_score_analysisDataOf:
  "aj_score a = JNum s \<Longrightarrow>
     an_score (analysisDataOf sv cid a p dir) = intColumn (sv_roundsUp sv) s"
  by (simp add: analysisDataOf_def Let_def)

lemma analyzeCall_success_or_error:
  "res_success (fst (analyzeCall sv options w)) \<or> res_error (fst (analyzeCall sv options w)) \<noteq> None"
  by (auto simp: analyzeCall_def analyzeCallBody_def failure_def placeholderPath_def
      scoringPath_def Let_def split: prod.splits sum.splits option.splits llm_outcome.splits if_splits)

lemma analyzeCall_of_exception:
  "analyzeCallBody sv options w = (Inl msg, w1) \<Longrightarrow>
     analyzeCall sv options w = (failure (opt_callId options) msg, w1)"
  by (simp add: analyzeCall_def)

lemma scoringPath_throws:
  "promptFor dir body = Inr request \<Longrightarrow> sv_invokeLLM sv request = LLMThrows msg \<Longrightarrow>
     scoringPath sv cid p dir body w = (Inl msg, w\<lparr>llmLog := llmLog w @ [request]\<rparr>)"
  by (simp add: scoringPath_def Let_def)

lemma scoringPath_no_content:
  "promptFor dir body = Inr request \<Longrightarrow> sv_invokeLLM sv request = LLMNoContent \<Longrightarrow>
     scoringPath sv cid p dir body w =
       (Inl ''No response from LLM'', w\<lparr>llmLog := llmLog w @ [request]\<rparr>)"
  by (simp add: scoringPath_def Let_def)

lemma promptFor_cases:
  "promptFor dir body = Inl ''Cannot analyze corrupted or empty transcript''
   \<or> promptFor dir body = Inr (InboundPrompt body)
   \<or> promptFor dir body = Inr (OutboundPrompt body)"
  by (simp add: promptFor_def buildInboundQAPrompt_def buildOutboundQAPrompt_def)

lemma analyzeCall_placeholder_row:
  assumes "db w = Some d"
    and "selectCall d (opt_callId options) = Some call"
    and "resolveTranscript d options = Some (body, rec)"
    and "classify body rec \<noteq> Valid"
  shows "\<exists>d1 row. db (snd (analyzeCall sv options w)) = Some d1
           \<and> selectAnalysis d1 (opt_callId options) = Some row \<and> an_score row = 0"
proof -
  obtain hasContent isBroken where cc: "contentCheck body rec = (hasContent, isBroken)"
    by (cases "contentCheck body rec")
  with assms(4) have bad: "\<not> hasContent \<or> isBroken"
    by (simp add: classify_not_Valid)
  obtain d2 row r where
    pp: "placeholderPath sv (opt_callId options) (opt_phoneNumberId options) isBroken w
           = (Inr r, w\<lparr>db := Some d2\<rparr>)"
    and props: "selectAnalysis d2 (opt_callId options) = Some row" "an_score row = 0"
    using placeholderPath_available [OF assms(1)] by metis
  have "analyzeCallBody sv options w = (Inr r, w\<lparr>db := Some d2\<rparr>)"
    using assms(1,2,3) cc bad pp by (auto simp: analyzeCallBody_def Let_def)
  then have "analyzeCall sv options w = (r, w\<lparr>db := Some d2\<rparr>)"
    by (simp add: analyzeCall_def)
  with props show ?thesis by simp
qed

subsection \<open>Facts about the example data\<close>

lemma ex_db: "db (worldWith ts) = Some \<lparr>calls = [callDataOf (exCall ''AC1'' ''PNVbbBqeqM'' ''incoming'' 45)],
                  transcripts = ts, analyses = [], webhookHealth = []\<rparr>"
  by (simp add: worldWith_def)

lemma ex_call: "selectCall \<lparr>calls = [callDataOf (exCall ''AC1'' ''PNVbbBqeqM'' ''incoming'' 45)],
                  transcripts = ts, analyses = [], webhookHealth = []\<rparr> (opt_callId (exOptions ''AC1''))
   = Some (callDataOf (exCall ''AC1'' ''PNVbbBqeqM'' ''incoming'' 45))"
  by (simp add: selectCall_def exOptions_def callDataOf_def exCall_def Let_def)

lemma ex_resolve: "resolveTranscript \<lparr>calls = cs,
                  transcripts = [exTranscriptRow ''AC1'' text], analyses = [], webhookHealth = []\<rparr> (exOptions ''AC1'')
   = Some (text, Some (exTranscriptRow ''AC1'' text))"
  by (simp add: resolveTranscript_def exOptions_def truthy_def selectTranscript_def exTranscriptRow_def or_else_def)

lemma ex_empty: "classify [] (Some (exTranscriptRow ''AC1'' [])) = Empty"
  by (simp add: classify_def contentCheck_def checkText_def exTranscriptRow_def)

lemma ex_valid: "classify helloText (Some (exTranscriptRow ''AC1'' helloText)) = Valid"
  by (simp add: helloText_def classify_def contentCheck_def checkText_def trim_def isSpace_def
      toLowerCase_def lowerChar_def Let_def)

lemma ex_llm: "sv_invokeLLM (servicesAnswering outcome) request = outcome"
  by (simp add: servicesAnswering_def constantScorer_def)

lemma ex_prompt:
  "promptFor (or_else (opt_callDirection (exOptions ''AC1''))
      (cr_direction (callDataOf (exCall ''AC1'' ''PNVbbBqeqM'' ''incoming'' 45)))) helloText
   = Inr (InboundPrompt helloText)"
  by (simp add: exOptions_def callDataOf_def exCall_def or_else_def Let_def promptFor_def
      buildInboundQAPrompt_def unusableText_def helloText_def trim_def isSpace_def)

subsection \<open>Facts about the loops of the poll pipeline\<close>









subsection \<open>The placeholder for an empty or broken transcript\<close>

text \<open>
  Claim C1. When the call exists and its transcript, supplied or stored, classifies as empty
  or broken, \<^verbatim>\<open>analyzeCall\<close> sends nothing to the scoring function, returns a
  successful result with score 0, and leaves in the store an analysis row for the call with
  score 0 and compliance verdict \<^verbatim>\<open>Review\<close>.
\<close>

theorem empty_or_broken_gets_placeholder:
  assumes "db w = Some d"
    and "selectCall d (opt_callId options) = Some call"
    and "resolveTranscript d options = Some (text, rec)"
    and "classify text rec \<noteq> Valid"
  shows "\<exists>r w1 d1 row.
           analyzeCall sv options w = (r, w1)
         \<and> res_success r \<and> resultScore r = Some (JNum 0)
         \<and> llmLog w1 = llmLog w
         \<and> db w1 = Some d1
         \<and> selectAnalysis d1 (opt_callId options) = Some row
         \<and> an_score row = 0 \<and> an_complianceCheck row = Review"
proof -
  obtain hasContent isBroken where cc: "contentCheck text rec = (hasContent, isBroken)"
    by (cases "contentCheck text rec")
  with assms(4) have bad: "\<not> hasContent \<or> isBroken"
    by (simp add: classify_not_Valid)
  obtain d2 row r where
    pp: "placeholderPath sv (opt_callId options) (opt_phoneNumberId options) isBroken w
           = (Inr r, w\<lparr>db := Some d2\<rparr>)"
    and props: "res_success r" "resultScore r = Some (JNum 0)"
      "selectAnalysis d2 (opt_callId options) = Some row" "an_score row = 0"
      "an_complianceCheck row = Review"
    using placeholderPath_available [OF assms(1)] by metis
  have "analyzeCallBody sv options w = (Inr r, w\<lparr>db := Some d2\<rparr>)"
    using assms(1,2,3) cc bad pp by (auto simp: analyzeCallBody_def Let_def)
  then have "analyzeCall sv options w = (r, w\<lparr>db := Some d2\<rparr>)"
    by (simp add: analyzeCall_def)
  with props show ?thesis by simp
qed

text \<open>The call \<^verbatim>\<open>AC1\<close> with a stored transcript whose text is empty.\<close>

theorem empty_or_broken_gets_placeholder_witness:
  "classify [] (Some (exTranscriptRow ''AC1'' [])) \<noteq> Valid
   \<and> res_success (fst (analyzeCall (servicesAnswering LLMNoContent) (exOptions ''AC1'')
         (worldWith [exTranscriptRow ''AC1'' []])))
   \<and> resultScore (fst (analyzeCall (servicesAnswering LLMNoContent) (exOptions ''AC1'')
         (worldWith [exTranscriptRow ''AC1'' []]))) = Some (JNum 0)
   \<and> llmLog (snd (analyzeCall (servicesAnswering LLMNoContent) (exOptions ''AC1'')
         (worldWith [exTranscriptRow ''AC1'' []]))) = []"
proof -
  have h4: "classify [] (Some (exTranscriptRow ''AC1'' [])) \<noteq> Valid"
    by (simp add: ex_empty)
  from empty_or_broken_gets_placeholder [OF ex_db ex_call ex_resolve h4,
      of "servicesAnswering LLMNoContent"]
  show ?thesis
    using h4 by (auto simp: worldWith_def)
qed

subsection \<open>Line routing\<close>

lemma pollShouldAnalyze_iff:
  "pollShouldAnalyze cfg line call \<longleftrightarrow>
     (line = mainPhoneIdOrDefault cfg \<and> call_direction call = ''incoming''
        \<and> num_or_zero (call_duration call) > 30)
     \<or> (line = outboundPhoneIdOrDefault cfg \<and> call_direction call = ''outgoing'')"
  by (auto simp: pollShouldAnalyze_def Let_def)

lemma webhookRouting_iff:
  "shouldAnalyze (webhookRouting cfg p direction duration) \<longleftrightarrow>
     (strictEq p (envMainPhoneId cfg) \<and> direction = Str ''incoming'' \<and> duration > 30)
     \<or> (\<not> strictEq p (envMainPhoneId cfg) \<and> strictEq p (envOutboundPhoneId cfg)
          \<and> direction = Str ''outgoing'')"
  by (simp add: webhookRouting_def Let_def)

lemma strictEq_Str: "strictEq (Str l) e \<longleftrightarrow> e = Some l"
  by (simp add: strictEq_def)

text \<open>
  Claim C2, as the code has it. The poll filter knows the main line as the value of its
  variable or, when that is unset or empty, the built-in identifier, and the outbound line
  likewise; the webhook handler compares the event's line with the two variables as they
  are, by \<^verbatim>\<open>===\<close>, the main line first.

  \<^item> Poll filter: a call is kept iff it is on the main line, incoming and longer than 30
    seconds, or on the outbound line and outgoing. When the two identifiers differ this is
    the table of the claim: on the main line iff incoming and longer than 30 seconds, on
    the outbound line iff outgoing, whatever the duration. On any other line no call is
    kept. The filter records no reason.
  \<^item> Webhook handler: on a line equal to the main variable a call is analysed iff it is
    incoming and longer than 30 seconds; on a line equal to the outbound variable and not
    to the main one iff it is outgoing; on a line equal to neither never, and the reason
    recorded is \<^verbatim>\<open>Unknown phone number: \<close> followed by the line as a template renders it.
  \<^item> The two paths agree on which line is the main one (the outbound one) when the
    variable is set to a non-empty identifier.
\<close>

theorem line_routing_policy:
  "(pollShouldAnalyze cfg line call \<longleftrightarrow>
      (line = mainPhoneIdOrDefault cfg \<and> call_direction call = ''incoming''
         \<and> num_or_zero (call_duration call) > 30)
      \<or> (line = outboundPhoneIdOrDefault cfg \<and> call_direction call = ''outgoing''))
   \<and> filterCallsForAnalysis cfg cs line = filter (pollShouldAnalyze cfg line) cs
   \<and> (mainPhoneIdOrDefault cfg \<noteq> outboundPhoneIdOrDefault cfg \<longrightarrow>
        (pollShouldAnalyze cfg (mainPhoneIdOrDefault cfg) call \<longleftrightarrow>
           call_direction call = ''incoming'' \<and> num_or_zero (call_duration call) > 30)
        \<and> (pollShouldAnalyze cfg (outboundPhoneIdOrDefault cfg) call \<longleftrightarrow>
           call_direction call = ''outgoing''))
   \<and> (line \<noteq> mainPhoneIdOrDefault cfg \<and> line \<noteq> outboundPhoneIdOrDefault cfg \<longrightarrow>
        \<not> pollShouldAnalyze cfg line call)
   \<and> (strictEq p (envMainPhoneId cfg) \<longrightarrow>
        (shouldAnalyze (webhookRouting cfg p direction duration) \<longleftrightarrow>
           direction = Str ''incoming'' \<and> duration > 30))
   \<and> (strictEq p (envOutboundPhoneId cfg) \<and> \<not> strictEq p (envMainPhoneId cfg) \<longrightarrow>
        (shouldAnalyze (webhookRouting cfg p direction duration) \<longleftrightarrow>
           direction = Str ''outgoing''))
   \<and> (\<not> strictEq p (envMainPhoneId cfg) \<and> \<not> strictEq p (envOutboundPhoneId cfg) \<longrightarrow>
        \<not> shouldAnalyze (webhookRouting cfg p direction duration)
        \<and> phoneLine (webhookRouting cfg p direction duration) = ''unknown''
        \<and> filterReason (webhookRouting cfg p direction duration)
            = ''Unknown phone number: '' @ showJ p)
   \<and> (envMainPhoneId cfg = Some m \<and> m \<noteq> [] \<longrightarrow>
        (strictEq (Str l) (envMainPhoneId cfg) \<longleftrightarrow> l = mainPhoneIdOrDefault cfg))
   \<and> (envOutboundPhoneId cfg = Some ob \<and> ob \<noteq> [] \<longrightarrow>
        (strictEq (Str l) (envOutboundPhoneId cfg) \<longleftrightarrow> l = outboundPhoneIdOrDefault cfg))"
proof (intro conjI impI)
  show "pollShouldAnalyze cfg line call \<longleftrightarrow>
      (line = mainPhoneIdOrDefault cfg \<and> call_direction call = ''incoming''
         \<and> num_or_zero (call_duration call) > 30)
      \<or> (line = outboundPhoneIdOrDefault cfg \<and> call_direction call = ''outgoing'')"
    by (rule pollShouldAnalyze_iff)
  show "filterCallsForAnalysis cfg cs line = filter (pollShouldAnalyze cfg line) cs"
    by (simp add: filterCallsForAnalysis_def)
  show "pollShouldAnalyze cfg (mainPhoneIdOrDefault cfg) call \<longleftrightarrow>
           call_direction call = ''incoming'' \<and> num_or_zero (call_duration call) > 30"
    if "mainPhoneIdOrDefault cfg \<noteq> outboundPhoneIdOrDefault cfg"
    using that by (simp add: pollShouldAnalyze_iff)
  show "pollShouldAnalyze cfg (outboundPhoneIdOrDefault cfg) call \<longleftrightarrow>
           call_direction call = ''outgoing''"
    if "mainPhoneIdOrDefault cfg \<noteq> outboundPhoneIdOrDefault cfg"
    using that by (auto simp: pollShouldAnalyze_iff)
  show "\<not> pollShouldAnalyze cfg line call"
    if "line \<noteq> mainPhoneIdOrDefault cfg \<and> line \<noteq> outboundPhoneIdOrDefault cfg"
    using that by (simp add: pollShouldAnalyze_iff)
  show "shouldAnalyze (webhookRouting cfg p direction duration) \<longleftrightarrow>
           direction = Str ''incoming'' \<and> duration > 30"
    if "strictEq p (envMainPhoneId cfg)"
    using that by (simp add: webhookRouting_iff)
  show "shouldAnalyze (webhookRouting cfg p direction duration) \<longleftrightarrow>
           direction = Str ''outgoing''"
    if "strictEq p (envOutboundPhoneId cfg) \<and> \<not> strictEq p (envMainPhoneId cfg)"
    using that by (simp add: webhookRouting_iff)
  show "\<not> shouldAnalyze (webhookRouting cfg p direction duration)"
    if "\<not> strictEq p (envMainPhoneId cfg) \<and> \<not> strictEq p (envOutboundPhoneId cfg)"
    using that by (simp add: webhookRouting_iff)
  show "phoneLine (webhookRouting cfg p direction duration) = ''unknown''"
    if "\<not> strictEq p (envMainPhoneId cfg) \<and> \<not> strictEq p (envOutboundPhoneId cfg)"
    using that by (simp add: webhookRouting_def)
  show "filterReason (webhookRouting cfg p direction duration)
            = ''Unknown phone number: '' @ showJ p"
    if "\<not> strictEq p (envMainPhoneId cfg) \<and> \<not> strictEq p (envOutboundPhoneId cfg)"
    using that by (simp add: webhookRouting_def)
  show "strictEq (Str l) (envMainPhoneId cfg) \<longleftrightarrow> l = mainPhoneIdOrDefault cfg"
    if "envMainPhoneId cfg = Some m \<and> m \<noteq> []"
    using that by (auto simp: strictEq_Str mainPhoneIdOrDefault_def or_else_def)
  show "strictEq (Str l) (envOutboundPhoneId cfg) \<longleftrightarrow> l = outboundPhoneIdOrDefault cfg"
    if "envOutboundPhoneId cfg = Some ob \<and> ob \<noteq> []"
    using that by (auto simp: strictEq_Str outboundPhoneIdOrDefault_def or_else_def)
qed

text \<open>
  The policy on the two configured lines and on the line \<^verbatim>\<open>PN000\<close>: 30 seconds is not
  enough on the main line and 31 is, duration 0 qualifies on the outbound line, an
  unrecognised line is never analysed; and the poll table with neither variable set.
\<close>

theorem line_routing_policy_witness:
  "mainPhoneIdOrDefault exConfig \<noteq> outboundPhoneIdOrDefault exConfig
   \<and> mainPhoneIdOrDefault unsetConfig \<noteq> outboundPhoneIdOrDefault unsetConfig
   \<and> \<not> pollShouldAnalyze exConfig ''PNVbbBqeqM'' (exCall ''AC1'' ''PNVbbBqeqM'' ''incoming'' 30)
   \<and> pollShouldAnalyze exConfig ''PNVbbBqeqM'' (exCall ''AC1'' ''PNVbbBqeqM'' ''incoming'' 31)
   \<and> pollShouldAnalyze exConfig ''PNBANAZERt'' (exCall ''AC2'' ''PNBANAZERt'' ''outgoing'' 0)
   \<and> \<not> pollShouldAnalyze unsetConfig ''PNBANAZERt'' (exCall ''AC2'' ''PNBANAZERt'' ''incoming'' 45)
   \<and> \<not> pollShouldAnalyze exConfig ''PN000'' (exCall ''AC3'' ''PN000'' ''incoming'' 45)
   \<and> \<not> shouldAnalyze (webhookRouting exConfig (Str ''PNVbbBqeqM'') (Str ''incoming'') 30)
   \<and> shouldAnalyze (webhookRouting exConfig (Str ''PNVbbBqeqM'') (Str ''incoming'') 31)
   \<and> shouldAnalyze (webhookRouting exConfig (Str ''PNBANAZERt'') (Str ''outgoing'') 0)
   \<and> \<not> shouldAnalyze (webhookRouting exConfig (Str ''PN000'') (Str ''incoming'') 45)
   \<and> filterReason (webhookRouting exConfig (Str ''PN000'') (Str ''incoming'') 45)
       = ''Unknown phone number: PN000''
   \<and> strictEq (Str ''PNVbbBqeqM'') (envMainPhoneId exConfig)
   \<and> strictEq (Str ''PNBANAZERt'') (envOutboundPhoneId exConfig)"
proof -
  have ids: "mainPhoneIdOrDefault exConfig = ''PNVbbBqeqM''"
    "outboundPhoneIdOrDefault exConfig = ''PNBANAZERt''"
    "mainPhoneIdOrDefault unsetConfig = ''PNVbbBqeqM''"
    "outboundPhoneIdOrDefault unsetConfig = ''PNBANAZERt''"
    by (simp_all add: exConfig_def unsetConfig_def mainPhoneIdOrDefault_def
        outboundPhoneIdOrDefault_def or_else_def)
  have env: "envMainPhoneId exConfig = Some ''PNVbbBqeqM'' \<and> ''PNVbbBqeqM'' \<noteq> []"
    "envOutboundPhoneId exConfig = Some ''PNBANAZERt'' \<and> ''PNBANAZERt'' \<noteq> []"
    by (simp_all add: exConfig_def)
  have h1: "mainPhoneIdOrDefault exConfig \<noteq> outboundPhoneIdOrDefault exConfig"
    and h2: "mainPhoneIdOrDefault unsetConfig \<noteq> outboundPhoneIdOrDefault unsetConfig"
    by (simp_all add: ids)
  have other: "''PN000'' \<noteq> mainPhoneIdOrDefault exConfig
      \<and> ''PN000'' \<noteq> outboundPhoneIdOrDefault exConfig"
    by (simp add: ids)
  have m: "strictEq (Str ''PNVbbBqeqM'') (envMainPhoneId exConfig)"
    and ob: "strictEq (Str ''PNBANAZERt'') (envOutboundPhoneId exConfig)
      \<and> \<not> strictEq (Str ''PNBANAZERt'') (envMainPhoneId exConfig)"
    and un: "\<not> strictEq (Str ''PN000'') (envMainPhoneId exConfig)
      \<and> \<not> strictEq (Str ''PN000'') (envOutboundPhoneId exConfig)"
    by (simp_all add: strictEq_def exConfig_def)
  note table = line_routing_policy [THEN conjunct2, THEN conjunct2, THEN conjunct1, THEN mp]
  note off = line_routing_policy [THEN conjunct2, THEN conjunct2, THEN conjunct2,
      THEN conjunct1, THEN mp]
  note main = line_routing_policy [THEN conjunct2, THEN conjunct2, THEN conjunct2,
      THEN conjunct2, THEN conjunct1, THEN mp]
  note outb = line_routing_policy [THEN conjunct2, THEN conjunct2, THEN conjunct2,
      THEN conjunct2, THEN conjunct2, THEN conjunct1, THEN mp]
  note unkn = line_routing_policy [THEN conjunct2, THEN conjunct2, THEN conjunct2,
      THEN conjunct2, THEN conjunct2, THEN conjunct2, THEN conjunct1, THEN mp]
  note same_main = line_routing_policy [THEN conjunct2, THEN conjunct2, THEN conjunct2,
      THEN conjunct2, THEN conjunct2, THEN conjunct2, THEN conjunct2, THEN conjunct1, THEN mp]
  note same_outb = line_routing_policy [THEN conjunct2, THEN conjunct2, THEN conjunct2,
      THEN conjunct2, THEN conjunct2, THEN conjunct2, THEN conjunct2, THEN conjunct2, THEN mp]
  have p1: "\<not> pollShouldAnalyze exConfig ''PNVbbBqeqM'' (exCall ''AC1'' ''PNVbbBqeqM'' ''incoming'' 30)"
    using table [OF h1, THEN conjunct1, of "exCall ''AC1'' ''PNVbbBqeqM'' ''incoming'' 30"]
    by (simp add: ids exCall_def num_or_zero_def)
  have p2: "pollShouldAnalyze exConfig ''PNVbbBqeqM'' (exCall ''AC1'' ''PNVbbBqeqM'' ''incoming'' 31)"
    using table [OF h1, THEN conjunct1, of "exCall ''AC1'' ''PNVbbBqeqM'' ''incoming'' 31"]
    by (simp add: ids exCall_def num_or_zero_def)
  have p3: "pollShouldAnalyze exConfig ''PNBANAZERt'' (exCall ''AC2'' ''PNBANAZERt'' ''outgoing'' 0)"
    using table [OF h1, THEN conjunct2, of "exCall ''AC2'' ''PNBANAZERt'' ''outgoing'' 0"]
    by (simp add: ids exCall_def)
  have p4: "\<not> pollShouldAnalyze unsetConfig ''PNBANAZERt''
              (exCall ''AC2'' ''PNBANAZERt'' ''incoming'' 45)"
    using table [OF h2, THEN conjunct2, of "exCall ''AC2'' ''PNBANAZERt'' ''incoming'' 45"]
    by (simp add: ids exCall_def)
  have p5: "\<not> pollShouldAnalyze exConfig ''PN000'' (exCall ''AC3'' ''PN000'' ''incoming'' 45)"
    by (rule off [OF other])
  have w1: "\<not> shouldAnalyze (webhookRouting exConfig (Str ''PNVbbBqeqM'') (Str ''incoming'') 30)"
    using main [OF m, of "Str ''incoming''" 30] by simp
  have w2: "shouldAnalyze (webhookRouting exConfig (Str ''PNVbbBqeqM'') (Str ''incoming'') 31)"
    using main [OF m, of "Str ''incoming''" 31] by simp
  have w3: "shouldAnalyze (webhookRouting exConfig (Str ''PNBANAZERt'') (Str ''outgoing'') 0)"
    using outb [OF ob, of "Str ''outgoing''" 0] by simp
  have w4: "\<not> shouldAnalyze (webhookRouting exConfig (Str ''PN000'') (Str ''incoming'') 45)"
    by (rule unkn [OF un, THEN conjunct1])
  have w5: "filterReason (webhookRouting exConfig (Str ''PN000'') (Str ''incoming'') 45)
       = ''Unknown phone number: PN000''"
    using unkn [OF un, THEN conjunct2, THEN conjunct2, of "Str ''incoming''" 45]
    by (simp add: showJ_def)
  have s1: "strictEq (Str ''PNVbbBqeqM'') (envMainPhoneId exConfig)"
    using same_main [OF env(1), of "''PNVbbBqeqM''"] by (simp add: ids)
  have s2: "strictEq (Str ''PNBANAZERt'') (envOutboundPhoneId exConfig)"
    using same_outb [OF env(2), of "''PNBANAZERt''"] by (simp add: ids)
  show ?thesis
    using h1 h2 p1 p2 p3 p4 p5 w1 w2 w3 w4 w5 s1 s2 by blast
qed

text \<open>
  The claim as worded fails on four counts. The reason recorded for the line \<^verbatim>\<open>PN000\<close>
  has a capital U, so the lower-case substring \<^verbatim>\<open>unknown phone number\<close> is not in it,
  and for an event whose line is \<^verbatim>\<open>null\<close> it ends in \<^verbatim>\<open>null\<close>. With neither variable
  set the two paths disagree on the built-in main line: the poll filter keeps an incoming
  call of 45 seconds, the webhook handler calls the line unknown. With both variables
  naming one line the poll filter keeps an outgoing call of 0 seconds on the main line, and
  the webhook handler refuses an outgoing call on the outbound line.
\<close>

theorem routing_as_worded_counterexample:
  "\<not> str_includes
       (filterReason (webhookRouting exConfig (Str ''PN000'') (Str ''incoming'') 45))
       ''unknown phone number''
   \<and> filterReason (webhookRouting exConfig Null (Str ''incoming'') 45)
       = ''Unknown phone number: null''
   \<and> pollShouldAnalyze unsetConfig ''PNVbbBqeqM'' (exCall ''AC1'' ''PNVbbBqeqM'' ''incoming'' 45)
   \<and> \<not> shouldAnalyze (webhookRouting unsetConfig (Str ''PNVbbBqeqM'') (Str ''incoming'') 45)
   \<and> phoneLine (webhookRouting unsetConfig (Str ''PNVbbBqeqM'') (Str ''incoming'') 45)
       = ''unknown''
   \<and> mainPhoneIdOrDefault oneLineConfig = ''PN1''
   \<and> pollShouldAnalyze oneLineConfig ''PN1'' (exCall ''AC2'' ''PN1'' ''outgoing'' 0)
   \<and> strictEq (Str ''PN1'') (envOutboundPhoneId oneLineConfig)
   \<and> \<not> shouldAnalyze (webhookRouting oneLineConfig (Str ''PN1'') (Str ''outgoing'') 0)"
  by (simp add: webhookRouting_def showJ_def strictEq_def exConfig_def unsetConfig_def
      oneLineConfig_def pollShouldAnalyze_def mainPhoneIdOrDefault_def
      outboundPhoneIdOrDefault_def or_else_def exCall_def num_or_zero_def Let_def)

subsection \<open>Validation of the score\<close>

lemma failure_not_success: "\<not> res_success (failure cid msg)"
  by (simp add: failure_def)

lemma scoringPath_success_row:
  assumes "db w = Some d" and "scoringPath sv cid p dir body w = (Inr r, w1)"
  shows "\<exists>d1 row. db w1 = Some d1 \<and> selectAnalysis d1 cid = Some row
           \<and> 0 \<le> an_score row \<and> an_score row \<le> 100"
proof (cases "promptFor dir body")
  case (Inl msg)
  then show ?thesis using assms(2) by (simp add: scoringPath_unbuilt)
next
  case (Inr request)
  show ?thesis
  proof (cases "sv_invokeLLM sv request")
    case (LLMParsed a)
    show ?thesis
    proof (cases "invalidScore (aj_score a)")
      case True
      then show ?thesis
        using assms(2) scoringPath_invalid [OF Inr LLMParsed] by simp
    next
      case False
      obtain d1 where
        sp: "scoringPath sv cid p dir body w =
           (Inr \<lparr>res_success = True, res_callId = cid, res_analysis = Some (ScoredAnalysis a),
                 res_error = None\<rparr>,
            w\<lparr>llmLog := llmLog w @ [request], db := Some d1\<rparr>)"
        and sel: "selectAnalysis d1 cid = Some (analysisDataOf sv cid a p (Some dir))"
        using scoringPath_valid [OF assms(1) Inr LLMParsed False] by blast
      obtain s where s: "aj_score a = JNum s" "0 \<le> s" "s \<le> 100"
        using valid_score_range [OF False] by blast
      have w1: "w1 = w\<lparr>llmLog := llmLog w @ [request], db := Some d1\<rparr>"
        using assms(2) sp by simp
      have "0 \<le> an_score (analysisDataOf sv cid a p (Some dir))
          \<and> an_score (analysisDataOf sv cid a p (Some dir)) \<le> 100"
        unfolding an_score_analysisDataOf [OF s(1)] by (rule intColumn_range [OF s(2,3)])
      then show ?thesis
        using sel by (simp add: w1)
    qed
  qed (use assms(2) Inr in \<open>simp_all add: scoringPath_def Let_def\<close>)
qed

lemma success_row_in_range:
  assumes "res_success (fst (analyzeCall sv options w))"
  shows "\<exists>d1 row. db (snd (analyzeCall sv options w)) = Some d1
           \<and> selectAnalysis d1 (opt_callId options) = Some row
           \<and> 0 \<le> an_score row \<and> an_score row \<le> 100"
proof (cases "db w")
  case None
  then show ?thesis
    using assms by (simp add: analyzeCall_def analyzeCallBody_def failure_def Let_def)
next
  case (Some d)
  show ?thesis
  proof (cases "selectCall d (opt_callId options)")
    case None
    then show ?thesis
      using assms Some by (simp add: analyzeCall_def analyzeCallBody_def failure_def Let_def)
  next
    case call: (Some call)
    show ?thesis
    proof (cases "resolveTranscript d options")
      case None
      then show ?thesis
        using assms Some call
        by (simp add: analyzeCall_def analyzeCallBody_def failure_def Let_def)
    next
      case res: (Some resolved)
      obtain body rec where resolved: "resolved = (body, rec)"
        by (cases resolved)
      show ?thesis
      proof (cases "classify body rec = Valid")
        case False
        obtain d1 row where
          "db (snd (analyzeCall sv options w)) = Some d1"
          "selectAnalysis d1 (opt_callId options) = Some row" "an_score row = 0"
          using analyzeCall_placeholder_row [OF Some call res [unfolded resolved] False]
          by blast
        then show ?thesis by simp
      next
        case True
        let ?dir = "or_else (opt_callDirection options) (cr_direction call)"
        note run = analyzeCallBody_scoring [OF Some call res [unfolded resolved] True, of sv]
        obtain out w1 where sp:
          "scoringPath sv (opt_callId options) (opt_phoneNumberId options) ?dir body w = (out, w1)"
          by (cases "scoringPath sv (opt_callId options) (opt_phoneNumberId options) ?dir body w")
        show ?thesis
        proof (cases out)
          case (Inl msg)
          then show ?thesis
            using assms by (simp add: analyzeCall_def run sp failure_def)
        next
          case (Inr r)
          then show ?thesis
            using scoringPath_success_row [OF Some sp [unfolded Inr]]
            by (simp add: analyzeCall_def run sp)
        qed
      qed
    qed
  qed
qed

text \<open>
  Claim C3. Whenever \<^verbatim>\<open>analyzeCall\<close> reports success, the store holds an analysis row
  for the call whose score is a whole number from 0 to 100 (the column is an integer
  column). When the dispatcher reaches the scoring function and its answer parses: an
  answer whose score is not a number in the range 0 to 100, such as 150 or the string
  \<^verbatim>\<open>abc\<close>, makes \<^verbatim>\<open>analyzeCall\<close> fail with \<^verbatim>\<open>Invalid score in analysis result\<close> and
  leaves the store as it was; any other answer succeeds, and the row then holds the
  answer's score as the integer column takes it, which for a whole score is the score.
\<close>

theorem score_validation:
  "(res_success (fst (analyzeCall sv options w)) \<longrightarrow>
      (\<exists>d1 row. db (snd (analyzeCall sv options w)) = Some d1
         \<and> selectAnalysis d1 (opt_callId options) = Some row
         \<and> 0 \<le> an_score row \<and> an_score row \<le> 100))
   \<and> (db w = Some d \<and> selectCall d (opt_callId options) = Some call
        \<and> resolveTranscript d options = Some (body, rec) \<and> classify body rec = Valid
        \<and> promptFor (or_else (opt_callDirection options) (cr_direction call)) body = Inr request
        \<and> sv_invokeLLM sv request = LLMParsed a \<longrightarrow>
        (invalidScore (aj_score a) \<longrightarrow>
            fst (analyzeCall sv options w)
              = failure (opt_callId options) ''Invalid score in analysis result''
          \<and> db (snd (analyzeCall sv options w)) = db w)
        \<and> (\<not> invalidScore (aj_score a) \<longrightarrow>
            res_success (fst (analyzeCall sv options w))
          \<and> (\<exists>d1 row s. db (snd (analyzeCall sv options w)) = Some d1
               \<and> selectAnalysis d1 (opt_callId options) = Some row
               \<and> aj_score a = JNum s
               \<and> an_score row = intColumn (sv_roundsUp sv) s)))
   \<and> invalidScore (JNum 150) \<and> invalidScore (JStr ''abc'')
   \<and> intColumn (sv_roundsUp sv) (of_int n) = n"
proof (intro conjI impI)
  show "\<exists>d1 row. db (snd (analyzeCall sv options w)) = Some d1
         \<and> selectAnalysis d1 (opt_callId options) = Some row
         \<and> 0 \<le> an_score row \<and> an_score row \<le> 100"
    if "res_success (fst (analyzeCall sv options w))"
    using that by (rule success_row_in_range)
  let ?dir = "or_else (opt_callDirection options) (cr_direction call)"
  {
    assume path: "db w = Some d \<and> selectCall d (opt_callId options) = Some call
        \<and> resolveTranscript d options = Some (body, rec) \<and> classify body rec = Valid
        \<and> promptFor ?dir body = Inr request
        \<and> sv_invokeLLM sv request = LLMParsed a"
    then have h: "db w = Some d" "selectCall d (opt_callId options) = Some call"
      "resolveTranscript d options = Some (body, rec)" "classify body rec = Valid"
      and built: "promptFor ?dir body = Inr request"
      and answer: "sv_invokeLLM sv request = LLMParsed a"
      by simp_all
    note run = analyzeCallBody_scoring [OF h, of sv]
    {
      assume bad: "invalidScore (aj_score a)"
      have res: "analyzeCall sv options w =
          (failure (opt_callId options) ''Invalid score in analysis result'',
           w\<lparr>llmLog := llmLog w @ [request]\<rparr>)"
        by (simp add: analyzeCall_def run scoringPath_invalid [OF built answer bad])
      show "fst (analyzeCall sv options w)
                = failure (opt_callId options) ''Invalid score in analysis result''"
        by (simp add: res)
      show "db (snd (analyzeCall sv options w)) = db w"
        by (simp add: res)
    }
    {
      assume good: "\<not> invalidScore (aj_score a)"
      obtain d1 where
        sp: "scoringPath sv (opt_callId options) (opt_phoneNumberId options) ?dir body w =
           (Inr \<lparr>res_success = True, res_callId = opt_callId options,
                 res_analysis = Some (ScoredAnalysis a), res_error = None\<rparr>,
            w\<lparr>llmLog := llmLog w @ [request], db := Some d1\<rparr>)"
        and sel: "selectAnalysis d1 (opt_callId options)
            = Some (analysisDataOf sv (opt_callId options) a (opt_phoneNumberId options)
                (Some ?dir))"
        using scoringPath_valid [OF h(1) built answer good] by blast
      have res: "analyzeCall sv options w =
           (\<lparr>res_success = True, res_callId = opt_callId options,
                 res_analysis = Some (ScoredAnalysis a), res_error = None\<rparr>,
            w\<lparr>llmLog := llmLog w @ [request], db := Some d1\<rparr>)"
        by (simp add: analyzeCall_def run sp)
      show "res_success (fst (analyzeCall sv options w))"
        by (simp add: res)
      obtain s where s: "aj_score a = JNum s"
        using valid_score_range [OF good] by blast
      show "\<exists>d1 row s. db (snd (analyzeCall sv options w)) = Some d1
               \<and> selectAnalysis d1 (opt_callId options) = Some row
               \<and> aj_score a = JNum s
               \<and> an_score row = intColumn (sv_roundsUp sv) s"
        using sel s by (simp add: res an_score_analysisDataOf)
    }
  }
  show "invalidScore (JNum 150)" by (simp add: invalidScore_def)
  show "invalidScore (JStr ''abc'')" by (simp add: invalidScore_def)
  show "intColumn (sv_roundsUp sv) (of_int n) = n" by (rule intColumn_whole)
qed

text \<open>
  The scoring function answers with the scores 150, \<^verbatim>\<open>abc\<close>, 85 and 85.5; the store of
  the example rounds 85.5 to 86.
\<close>

theorem score_validation_witness:
  "classify helloText (Some (exTranscriptRow ''AC1'' helloText)) = Valid
   \<and> fst (analyzeCall (servicesAnswering (LLMParsed (exAnswer (JNum 150)))) (exOptions ''AC1'')
           (worldWith [exTranscriptRow ''AC1'' helloText]))
       = failure ''AC1'' ''Invalid score in analysis result''
   \<and> db (snd (analyzeCall (servicesAnswering (LLMParsed (exAnswer (JNum 150)))) (exOptions ''AC1'')
           (worldWith [exTranscriptRow ''AC1'' helloText])))
       = db (worldWith [exTranscriptRow ''AC1'' helloText])
   \<and> fst (analyzeCall (servicesAnswering (LLMParsed (exAnswer (JStr ''abc'')))) (exOptions ''AC1'')
           (worldWith [exTranscriptRow ''AC1'' helloText]))
       = failure ''AC1'' ''Invalid score in analysis result''
   \<and> db (snd (analyzeCall (servicesAnswering (LLMParsed (exAnswer (JStr ''abc'')))) (exOptions ''AC1'')
           (worldWith [exTranscriptRow ''AC1'' helloText])))
       = db (worldWith [exTranscriptRow ''AC1'' helloText])
   \<and> res_success (fst (analyzeCall (servicesAnswering (LLMParsed (exAnswer (JNum 85))))
           (exOptions ''AC1'') (worldWith [exTranscriptRow ''AC1'' helloText])))
   \<and> map_option an_score (selectAnalysis
         (the (db (snd (analyzeCall (servicesAnswering (LLMParsed (exAnswer (JNum 85))))
            (exOptions ''AC1'') (worldWith [exTranscriptRow ''AC1'' helloText])))))
         ''AC1'') = Some 85
   \<and> res_success (fst (analyzeCall (servicesAnswering (LLMParsed (exAnswer (JNum (171 / 2)))))
           (exOptions ''AC1'') (worldWith [exTranscriptRow ''AC1'' helloText])))
   \<and> map_option an_score (selectAnalysis
         (the (db (snd (analyzeCall (servicesAnswering (LLMParsed (exAnswer (JNum (171 / 2)))))
            (exOptions ''AC1'') (worldWith [exTranscriptRow ''AC1'' helloText])))))
         ''AC1'') = Some 86"
proof -
  have path: "db (worldWith [exTranscriptRow ''AC1'' helloText])
        = Some \<lparr>calls = [callDataOf (exCall ''AC1'' ''PNVbbBqeqM'' ''incoming'' 45)],
                  transcripts = [exTranscriptRow ''AC1'' helloText], analyses = [],
                  webhookHealth = []\<rparr>
      \<and> selectCall \<lparr>calls = [callDataOf (exCall ''AC1'' ''PNVbbBqeqM'' ''incoming'' 45)],
                  transcripts = [exTranscriptRow ''AC1'' helloText], analyses = [],
                  webhookHealth = []\<rparr> (opt_callId (exOptions ''AC1''))
          = Some (callDataOf (exCall ''AC1'' ''PNVbbBqeqM'' ''incoming'' 45))
      \<and> resolveTranscript \<lparr>calls = [callDataOf (exCall ''AC1'' ''PNVbbBqeqM'' ''incoming'' 45)],
                  transcripts = [exTranscriptRow ''AC1'' helloText], analyses = [],
                  webhookHealth = []\<rparr> (exOptions ''AC1'')
          = Some (helloText, Some (exTranscriptRow ''AC1'' helloText))
      \<and> classify helloText (Some (exTranscriptRow ''AC1'' helloText)) = Valid
      \<and> promptFor (or_else (opt_callDirection (exOptions ''AC1''))
             (cr_direction (callDataOf (exCall ''AC1'' ''PNVbbBqeqM'' ''incoming'' 45)))) helloText
          = Inr (InboundPrompt helloText)
      \<and> sv_invokeLLM (servicesAnswering (LLMParsed a)) (InboundPrompt helloText) = LLMParsed a"
    for a
    using ex_db ex_call ex_resolve ex_valid ex_prompt ex_llm by blast
  note inst = score_validation [THEN conjunct2, THEN conjunct1, THEN mp, OF path]
  have bad: "invalidScore (aj_score (exAnswer (JNum 150)))"
    "invalidScore (aj_score (exAnswer (JStr ''abc'')))"
    and good: "\<not> invalidScore (aj_score (exAnswer (JNum 85)))"
    "\<not> invalidScore (aj_score (exAnswer (JNum (171 / 2))))"
    by (simp_all add: exAnswer_def invalidScore_def)
  have cid: "opt_callId (exOptions ''AC1'') = ''AC1''"
    by (simp add: exOptions_def)
  have r1: "fst (analyzeCall (servicesAnswering (LLMParsed (exAnswer (JNum 150)))) (exOptions ''AC1'')
           (worldWith [exTranscriptRow ''AC1'' helloText]))
       = failure ''AC1'' ''Invalid score in analysis result''
   \<and> db (snd (analyzeCall (servicesAnswering (LLMParsed (exAnswer (JNum 150)))) (exOptions ''AC1'')
           (worldWith [exTranscriptRow ''AC1'' helloText])))
       = db (worldWith [exTranscriptRow ''AC1'' helloText])"
    using inst [of "exAnswer (JNum 150)", THEN conjunct1, THEN mp, OF bad(1)]
    unfolding cid .
  have r2: "fst (analyzeCall (servicesAnswering (LLMParsed (exAnswer (JStr ''abc'')))) (exOptions ''AC1'')
           (worldWith [exTranscriptRow ''AC1'' helloText]))
       = failure ''AC1'' ''Invalid score in analysis result''
   \<and> db (snd (analyzeCall (servicesAnswering (LLMParsed (exAnswer (JStr ''abc'')))) (exOptions ''AC1'')
           (worldWith [exTranscriptRow ''AC1'' helloText])))
       = db (worldWith [exTranscriptRow ''AC1'' helloText])"
    using inst [of "exAnswer (JStr ''abc'')", THEN conjunct1, THEN mp, OF bad(2)]
    unfolding cid .
  have r3: "res_success (fst (analyzeCall (servicesAnswering (LLMParsed (exAnswer (JNum 85))))
           (exOptions ''AC1'') (worldWith [exTranscriptRow ''AC1'' helloText])))"
    using inst [of "exAnswer (JNum 85)", THEN conjunct2, THEN mp, OF good(1), THEN conjunct1] .
  have r4: "res_success (fst (analyzeCall (servicesAnswering (LLMParsed (exAnswer (JNum (171 / 2)))))
           (exOptions ''AC1'') (worldWith [exTranscriptRow ''AC1'' helloText])))"
    using inst [of "exAnswer (JNum (171 / 2))", THEN conjunct2, THEN mp, OF good(2),
        THEN conjunct1] .
  have s3: "map_option an_score (selectAnalysis
         (the (db (snd (analyzeCall (servicesAnswering (LLMParsed (exAnswer (JNum 85))))
            (exOptions ''AC1'') (worldWith [exTranscriptRow ''AC1'' helloText])))))
         ''AC1'') = Some 85"
    by code_simp
  have s4: "map_option an_score (selectAnalysis
         (the (db (snd (analyzeCall (servicesAnswering (LLMParsed (exAnswer (JNum (171 / 2)))))
            (exOptions ''AC1'') (worldWith [exTranscriptRow ''AC1'' helloText])))))
         ''AC1'') = Some 86"
    by code_simp
  show ?thesis
    using ex_valid r1 r2 r3 r4 s3 s4 by blast
qed

subsection \<open>The dispatcher returns a result, whatever fails\<close>

text \<open>
  Claim C4. \<^verbatim>\<open>analyzeCall\<close> returns a result for every input: the result is a
  success or carries an error string, and it names the call id it was given. Without a row
  for the call the error is \<^verbatim>\<open>Call not found\<close>; with the call, no supplied text and no
  transcript row, the error is \<^verbatim>\<open>Transcript not found for this call\<close>. Every exception
  thrown inside the \<^verbatim>\<open>try\<close> block comes back as a failure with the exception's
  message: the missing database handle; the prompt builder refusing a text that is blank
  although the stored segments passed the content check
  (\<^verbatim>\<open>Cannot analyze corrupted or empty transcript\<close>, and the scoring function is not
  called); and, once the prompt is built, a scoring call that throws and a scoring answer
  without content.
\<close>

theorem analyzeCall_never_throws:
  "(res_success (fst (analyzeCall sv options w))
      \<or> res_error (fst (analyzeCall sv options w)) \<noteq> None)
   \<and> res_callId (fst (analyzeCall sv options w)) = opt_callId options
   \<and> (db w = Some d \<and> selectCall d (opt_callId options) = None \<longrightarrow>
        analyzeCall sv options w = (failure (opt_callId options) ''Call not found'', w))
   \<and> (db w = Some d \<and> selectCall d (opt_callId options) = Some call
        \<and> \<not> truthy (opt_transcriptText options)
        \<and> selectTranscript d (opt_callId options) = None \<longrightarrow>
        analyzeCall sv options w
          = (failure (opt_callId options) ''Transcript not found for this call'', w)
        \<and> str_includes ''Transcript not found for this call'' ''Transcript not found'')
   \<and> (analyzeCallBody sv options w = (Inl msg, w1) \<longrightarrow>
        analyzeCall sv options w = (failure (opt_callId options) msg, w1))
   \<and> (db w = None \<longrightarrow>
        analyzeCall sv options w = (failure (opt_callId options) ''Database not available'', w))
   \<and> (db w = Some d \<and> selectCall d (opt_callId options) = Some call
        \<and> resolveTranscript d options = Some (body, rec) \<and> classify body rec = Valid
        \<and> promptFor (or_else (opt_callDirection options) (cr_direction call)) body = Inl msg
        \<longrightarrow>
        analyzeCall sv options w = (failure (opt_callId options) msg, w)
        \<and> msg = ''Cannot analyze corrupted or empty transcript'')
   \<and> (db w = Some d \<and> selectCall d (opt_callId options) = Some call
        \<and> resolveTranscript d options = Some (body, rec) \<and> classify body rec = Valid
        \<and> promptFor (or_else (opt_callDirection options) (cr_direction call)) body = Inr request
        \<and> sv_invokeLLM sv request = LLMThrows msg \<longrightarrow>
        fst (analyzeCall sv options w) = failure (opt_callId options) msg)
   \<and> (db w = Some d \<and> selectCall d (opt_callId options) = Some call
        \<and> resolveTranscript d options = Some (body, rec) \<and> classify body rec = Valid
        \<and> promptFor (or_else (opt_callDirection options) (cr_direction call)) body = Inr request
        \<and> sv_invokeLLM sv request = LLMNoContent \<longrightarrow>
        fst (analyzeCall sv options w) = failure (opt_callId options) ''No response from LLM'')"
proof (intro conjI impI)
  show "res_success (fst (analyzeCall sv options w))
      \<or> res_error (fst (analyzeCall sv options w)) \<noteq> None"
    by (rule analyzeCall_success_or_error)
  show "res_callId (fst (analyzeCall sv options w)) = opt_callId options"
    by simp
  show "analyzeCall sv options w = (failure (opt_callId options) ''Call not found'', w)"
    if "db w = Some d \<and> selectCall d (opt_callId options) = None"
    using that by (simp add: analyzeCall_def analyzeCallBody_def Let_def)
  show "analyzeCall sv options w
          = (failure (opt_callId options) ''Transcript not found for this call'', w)"
    if "db w = Some d \<and> selectCall d (opt_callId options) = Some call
        \<and> \<not> truthy (opt_transcriptText options)
        \<and> selectTranscript d (opt_callId options) = None"
    using that by (simp add: analyzeCall_def analyzeCallBody_def resolveTranscript_def Let_def)
  show "str_includes ''Transcript not found for this call'' ''Transcript not found''"
    by simp
  show "analyzeCall sv options w = (failure (opt_callId options) msg, w1)"
    if "analyzeCallBody sv options w = (Inl msg, w1)"
    using that by (rule analyzeCall_of_exception)
  show "analyzeCall sv options w = (failure (opt_callId options) ''Database not available'', w)"
    if "db w = None"
    using that by (simp add: analyzeCall_def analyzeCallBody_def Let_def)
  show "analyzeCall sv options w = (failure (opt_callId options) msg, w)"
    if "db w = Some d \<and> selectCall d (opt_callId options) = Some call
        \<and> resolveTranscript d options = Some (body, rec) \<and> classify body rec = Valid
        \<and> promptFor (or_else (opt_callDirection options) (cr_direction call)) body = Inl msg"
  proof -
    from that have h: "db w = Some d" "selectCall d (opt_callId options) = Some call"
      "resolveTranscript d options = Some (body, rec)" "classify body rec = Valid"
      by simp_all
    have "analyzeCallBody sv options w =
        scoringPath sv (opt_callId options) (opt_phoneNumberId options)
          (or_else (opt_callDirection options) (cr_direction call)) body w"
      by (rule analyzeCallBody_scoring [OF h])
    with that show ?thesis
      by (simp add: analyzeCall_def scoringPath_unbuilt)
  qed
  show "msg = ''Cannot analyze corrupted or empty transcript''"
    if "db w = Some d \<and> selectCall d (opt_callId options) = Some call
        \<and> resolveTranscript d options = Some (body, rec) \<and> classify body rec = Valid
        \<and> promptFor (or_else (opt_callDirection options) (cr_direction call)) body = Inl msg"
    using that
      promptFor_cases [of "or_else (opt_callDirection options) (cr_direction call)" body]
    by auto
  show "fst (analyzeCall sv options w) = failure (opt_callId options) msg"
    if "db w = Some d \<and> selectCall d (opt_callId options) = Some call
        \<and> resolveTranscript d options = Some (body, rec) \<and> classify body rec = Valid
        \<and> promptFor (or_else (opt_callDirection options) (cr_direction call)) body = Inr request
        \<and> sv_invokeLLM sv request = LLMThrows msg"
  proof -
    from that have h: "db w = Some d" "selectCall d (opt_callId options) = Some call"
      "resolveTranscript d options = Some (body, rec)" "classify body rec = Valid"
      by simp_all
    have "analyzeCallBody sv options w =
        scoringPath sv (opt_callId options) (opt_phoneNumberId options)
          (or_else (opt_callDirection options) (cr_direction call)) body w"
      by (rule analyzeCallBody_scoring [OF h])
    with that show ?thesis
      by (simp add: analyzeCall_def scoringPath_throws)
  qed
  show "fst (analyzeCall sv options w) = failure (opt_callId options) ''No response from LLM''"
    if "db w = Some d \<and> selectCall d (opt_callId options) = Some call
        \<and> resolveTranscript d options = Some (body, rec) \<and> classify body rec = Valid
        \<and> promptFor (or_else (opt_callDirection options) (cr_direction call)) body = Inr request
        \<and> sv_invokeLLM sv request = LLMNoContent"
  proof -
    from that have h: "db w = Some d" "selectCall d (opt_callId options) = Some call"
      "resolveTranscript d options = Some (body, rec)" "classify body rec = Valid"
      by simp_all
    have "analyzeCallBody sv options w =
        scoringPath sv (opt_callId options) (opt_phoneNumberId options)
          (or_else (opt_callDirection options) (cr_direction call)) body w"
      by (rule analyzeCallBody_scoring [OF h])
    with that show ?thesis
      by (simp add: analyzeCall_def scoringPath_no_content)
  qed
qed

text \<open>
  A call that is not in the store, a call without transcript, a world without database
  handle, a stored transcript with an empty text and a valid segment, a scoring call that
  throws, and a scoring answer without content.
\<close>

theorem analyzeCall_never_throws_witness:
  "analyzeCall (servicesAnswering LLMNoContent) (exOptions ''AC9'') emptyWorld
     = (failure ''AC9'' ''Call not found'', emptyWorld)
   \<and> analyzeCall (servicesAnswering LLMNoContent) (exOptions ''AC1'') (worldWith [])
     = (failure ''AC1'' ''Transcript not found for this call'', worldWith [])
   \<and> analyzeCall (servicesAnswering LLMNoContent) (exOptions ''AC1'') offlineWorld
     = (failure ''AC1'' ''Database not available'', offlineWorld)
   \<and> classify [] (Some (textlessRow ''AC1'')) = Valid
   \<and> analyzeCall (servicesAnswering (LLMParsed (exAnswer (JNum 85)))) (exOptions ''AC1'')
         (worldWith [textlessRow ''AC1''])
     = (failure ''AC1'' ''Cannot analyze corrupted or empty transcript'',
        worldWith [textlessRow ''AC1''])
   \<and> fst (analyzeCall (servicesAnswering (LLMThrows ''429 rate limit'')) (exOptions ''AC1'')
          (worldWith [exTranscriptRow ''AC1'' helloText]))
     = failure ''AC1'' ''429 rate limit''
   \<and> fst (analyzeCall (servicesAnswering LLMNoContent) (exOptions ''AC1'')
          (worldWith [exTranscriptRow ''AC1'' helloText]))
     = failure ''AC1'' ''No response from LLM''"
proof -
  have cid: "opt_callId (exOptions c) = c" for c
    by (simp add: exOptions_def)
  have a1: "db emptyWorld = Some emptyDatabase
      \<and> selectCall emptyDatabase (opt_callId (exOptions ''AC9'')) = None"
    by (simp add: emptyWorld_def emptyDatabase_def selectCall_def)
  have r1: "analyzeCall (servicesAnswering LLMNoContent) (exOptions ''AC9'') emptyWorld
     = (failure ''AC9'' ''Call not found'', emptyWorld)"
    using analyzeCall_never_throws [THEN conjunct2, THEN conjunct2, THEN conjunct1, THEN mp, OF a1]
    by (simp add: cid)
  have a2: "db (worldWith []) = Some \<lparr>calls = [callDataOf (exCall ''AC1'' ''PNVbbBqeqM'' ''incoming'' 45)],
                  transcripts = [], analyses = [], webhookHealth = []\<rparr>
      \<and> selectCall \<lparr>calls = [callDataOf (exCall ''AC1'' ''PNVbbBqeqM'' ''incoming'' 45)],
                  transcripts = [], analyses = [], webhookHealth = []\<rparr> (opt_callId (exOptions ''AC1''))
          = Some (callDataOf (exCall ''AC1'' ''PNVbbBqeqM'' ''incoming'' 45))
      \<and> \<not> truthy (opt_transcriptText (exOptions ''AC1''))
      \<and> selectTranscript \<lparr>calls = [callDataOf (exCall ''AC1'' ''PNVbbBqeqM'' ''incoming'' 45)],
                  transcripts = [], analyses = [], webhookHealth = []\<rparr> (opt_callId (exOptions ''AC1''))
          = None"
    using ex_db [of "[]"] ex_call [of "[]"]
    by (simp add: exOptions_def truthy_def selectTranscript_def)
  have r2: "analyzeCall (servicesAnswering LLMNoContent) (exOptions ''AC1'') (worldWith [])
     = (failure ''AC1'' ''Transcript not found for this call'', worldWith [])"
    using analyzeCall_never_throws [THEN conjunct2, THEN conjunct2, THEN conjunct2,
        THEN conjunct1, THEN mp, OF a2, THEN conjunct1]
    by (simp add: cid)
  have a3: "db offlineWorld = None"
    by (simp add: offlineWorld_def)
  have b3: "analyzeCallBody (servicesAnswering LLMNoContent) (exOptions ''AC1'') offlineWorld
      = (Inl ''Database not available'', offlineWorld)"
    by (simp add: analyzeCallBody_def a3 Let_def)
  have r3: "analyzeCall (servicesAnswering LLMNoContent) (exOptions ''AC1'') offlineWorld
     = (failure ''AC1'' ''Database not available'', offlineWorld)"
    using analyzeCall_never_throws [THEN conjunct2, THEN conjunct2, THEN conjunct2,
        THEN conjunct2, THEN conjunct1, THEN mp, OF b3]
      analyzeCall_never_throws [THEN conjunct2, THEN conjunct2, THEN conjunct2,
        THEN conjunct2, THEN conjunct2, THEN conjunct1, THEN mp, OF a3]
    by (simp add: cid)
  have t1: "resolveTranscript \<lparr>calls = [callDataOf (exCall ''AC1'' ''PNVbbBqeqM'' ''incoming'' 45)],
                  transcripts = [textlessRow ''AC1''], analyses = [], webhookHealth = []\<rparr>
               (exOptions ''AC1'')
          = Some ([], Some (textlessRow ''AC1''))"
    by (simp add: resolveTranscript_def exOptions_def truthy_def selectTranscript_def
        textlessRow_def or_else_def)
  have t2: "classify [] (Some (textlessRow ''AC1'')) = Valid"
    by (simp add: classify_def contentCheck_def checkText_def textlessRow_def validSegment_def
        trim_def isSpace_def truthy_def Let_def)
  have t3: "promptFor (or_else (opt_callDirection (exOptions ''AC1''))
             (cr_direction (callDataOf (exCall ''AC1'' ''PNVbbBqeqM'' ''incoming'' 45)))) []
          = Inl ''Cannot analyze corrupted or empty transcript''"
    by (simp add: exOptions_def callDataOf_def exCall_def or_else_def Let_def promptFor_def
        buildInboundQAPrompt_def unusableText_def)
  have a6: "db (worldWith [textlessRow ''AC1''])
        = Some \<lparr>calls = [callDataOf (exCall ''AC1'' ''PNVbbBqeqM'' ''incoming'' 45)],
                  transcripts = [textlessRow ''AC1''], analyses = [], webhookHealth = []\<rparr>
      \<and> selectCall \<lparr>calls = [callDataOf (exCall ''AC1'' ''PNVbbBqeqM'' ''incoming'' 45)],
                  transcripts = [textlessRow ''AC1''], analyses = [], webhookHealth = []\<rparr>
            (opt_callId (exOptions ''AC1''))
          = Some (callDataOf (exCall ''AC1'' ''PNVbbBqeqM'' ''incoming'' 45))
      \<and> resolveTranscript \<lparr>calls = [callDataOf (exCall ''AC1'' ''PNVbbBqeqM'' ''incoming'' 45)],
                  transcripts = [textlessRow ''AC1''], analyses = [], webhookHealth = []\<rparr>
            (exOptions ''AC1'')
          = Some ([], Some (textlessRow ''AC1''))
      \<and> classify [] (Some (textlessRow ''AC1'')) = Valid
      \<and> promptFor (or_else (opt_callDirection (exOptions ''AC1''))
             (cr_direction (callDataOf (exCall ''AC1'' ''PNVbbBqeqM'' ''incoming'' 45)))) []
          = Inl ''Cannot analyze corrupted or empty transcript''"
    using ex_db ex_call t1 t2 t3 by blast
  have r6: "analyzeCall (servicesAnswering (LLMParsed (exAnswer (JNum 85)))) (exOptions ''AC1'')
         (worldWith [textlessRow ''AC1''])
     = (failure ''AC1'' ''Cannot analyze corrupted or empty transcript'',
        worldWith [textlessRow ''AC1''])"
    using analyzeCall_never_throws [THEN conjunct2, THEN conjunct2, THEN conjunct2,
        THEN conjunct2, THEN conjunct2, THEN conjunct2, THEN conjunct1, THEN mp, OF a6,
        THEN conjunct1]
    by (simp add: cid)
  have a4: "db (worldWith [exTranscriptRow ''AC1'' helloText])
        = Some \<lparr>calls = [callDataOf (exCall ''AC1'' ''PNVbbBqeqM'' ''incoming'' 45)],
                  transcripts = [exTranscriptRow ''AC1'' helloText], analyses = [],
                  webhookHealth = []\<rparr>
      \<and> selectCall \<lparr>calls = [callDataOf (exCall ''AC1'' ''PNVbbBqeqM'' ''incoming'' 45)],
                  transcripts = [exTranscriptRow ''AC1'' helloText], analyses = [],
                  webhookHealth = []\<rparr> (opt_callId (exOptions ''AC1''))
          = Some (callDataOf (exCall ''AC1'' ''PNVbbBqeqM'' ''incoming'' 45))
      \<and> resolveTranscript \<lparr>calls = [callDataOf (exCall ''AC1'' ''PNVbbBqeqM'' ''incoming'' 45)],
                  transcripts = [exTranscriptRow ''AC1'' helloText], analyses = [],
                  webhookHealth = []\<rparr> (exOptions ''AC1'')
          = Some (helloText, Some (exTranscriptRow ''AC1'' helloText))
      \<and> classify helloText (Some (exTranscriptRow ''AC1'' helloText)) = Valid
      \<and> promptFor (or_else (opt_callDirection (exOptions ''AC1''))
             (cr_direction (callDataOf (exCall ''AC1'' ''PNVbbBqeqM'' ''incoming'' 45)))) helloText
          = Inr (InboundPrompt helloText)
      \<and> sv_invokeLLM (servicesAnswering outcome) (InboundPrompt helloText) = outcome"
    for outcome
    using ex_db ex_call ex_resolve ex_valid ex_prompt ex_llm by blast
  have r4: "fst (analyzeCall (servicesAnswering (LLMThrows ''429 rate limit'')) (exOptions ''AC1'')
          (worldWith [exTranscriptRow ''AC1'' helloText]))
     = failure ''AC1'' ''429 rate limit''"
    using analyzeCall_never_throws [THEN conjunct2, THEN conjunct2, THEN conjunct2,
        THEN conjunct2, THEN conjunct2, THEN conjunct2, THEN conjunct2, THEN conjunct1,
        THEN mp, OF a4]
    by (simp add: cid)
  have r5: "fst (analyzeCall (servicesAnswering LLMNoContent) (exOptions ''AC1'')
          (worldWith [exTranscriptRow ''AC1'' helloText]))
     = failure ''AC1'' ''No response from LLM''"
    using analyzeCall_never_throws [THEN conjunct2, THEN conjunct2, THEN conjunct2,
        THEN conjunct2, THEN conjunct2, THEN conjunct2, THEN conjunct2, THEN conjunct2,
        THEN mp, OF a4]
    by (simp add: cid)
  show ?thesis
    using r1 r2 r3 t2 r6 r4 r5 by blast
qed

subsection \<open>A dialogue without text and speakers on the poll path\<close>

lemma silent_row:
  "pollTranscriptData \<lparr>t_callId = ''AC1'', t_duration = Some 45, t_status = ''completed'',
       t_dialogue = Some silentDialogue\<rparr> silentDialogue
   = \<lparr>tr_callId = ''AC1'', tr_fullText = ''Unknown: '' @ newline @ ''Unknown: '',
      tr_jsonPayload = Some \<lparr>segments = Some
        [\<lparr>seg_start = Some 0, seg_end = Some 2, seg_speaker = Some ''Unknown'', seg_text = Some []\<rparr>,
         \<lparr>seg_start = Some 0, seg_end = Some 2, seg_speaker = Some ''Unknown'', seg_text = Some []\<rparr>]\<rparr>,
      tr_duration = Some 45, tr_status = ''completed''\<rparr>"
  by (simp add: pollTranscriptData_def pollNormalize_def pollFullText_def pollSegment_def
      silentDialogue_def exItem_def dialogueLine_def speakerOf_def or_opt_def or_else_def truthy_def)

lemma silent_fetch:
  "fetchTranscriptForCall silentServices ''AC1'' (worldWith [])
     = (Inr True,
        (worldWith [pollTranscriptData \<lparr>t_callId = ''AC1'', t_duration = Some 45,
             t_status = ''completed'', t_dialogue = Some silentDialogue\<rparr> silentDialogue])
          \<lparr>fetchLog := [''AC1'']\<rparr>)"
  by (simp add: fetchTranscriptForCall_def worldWith_def silentServices_def silentTranscript_def
      selectTranscript_def insertTranscript_def silentDialogue_def Let_def)

lemma silent_classify:
  "classify (''Unknown: '' @ newline @ ''Unknown: '')
     (Some \<lparr>tr_callId = ''AC1'', tr_fullText = ''Unknown: '' @ newline @ ''Unknown: '',
      tr_jsonPayload = Some \<lparr>segments = Some
        [\<lparr>seg_start = Some 0, seg_end = Some 2, seg_speaker = Some ''Unknown'', seg_text = Some []\<rparr>,
         \<lparr>seg_start = Some 0, seg_end = Some 2, seg_speaker = Some ''Unknown'', seg_text = Some []\<rparr>]\<rparr>,
      tr_duration = Some 45, tr_status = ''completed''\<rparr>) = Valid"
  by (simp add: classify_def contentCheck_def checkText_def trim_def isSpace_def newline_def
      toLowerCase_def lowerChar_def Let_def)

text \<open>
  What works as the claim says: text that carries the marker of a doubly missing field is
  classified as broken, and the push path stores nothing when no item of a non-empty
  dialogue is valid.
\<close>

lemma marker_is_broken:
  assumes "str_includes body ''undefined: undefined''" and "trim body \<noteq> []"
  shows "classify body storedRow = Broken"
proof -
  have "body \<noteq> []"
    using assms(2) by (auto simp: trim_def)
  then have "checkText body = (False, True)"
    using assms by (simp add: checkText_def)
  then show ?thesis
    by (simp add: classify_def contentCheck_def)
qed

lemma push_path_stores_nothing:
  assumes "ex_dialogue ex \<noteq> []" and "filter validDialogueItem (ex_dialogue ex) = []"
  shows "handlerAsync sv isCallCompleted ex rt w = w"
proof -
  have "webhookNormalize (ex_dialogue ex) = Inl ''No valid dialogue items in transcript''"
    using assms(2) by (simp add: webhookNormalize_def)
  then have "snd (saveWebhookTranscript ex w) = w \<and> isl (fst (saveWebhookTranscript ex w))"
    by (simp add: saveWebhookTranscript_def split: option.splits)
  then show ?thesis
    using assms(1)
    by (cases "saveWebhookTranscript ex w") (auto simp: handlerAsync_def split: sum.splits)
qed

text \<open>
  Claim C5 asks that a dialogue whose items all lack text and speaker be classified as
  broken and never scored. On the poll path it is not so: for a dialogue of two such items
  \<^verbatim>\<open>fetchTranscriptForCall\<close> stores the text \<^verbatim>\<open>Unknown: \<close> twice, the dispatcher finds
  more than ten characters and no marker, and the scoring function is called. The push
  path refuses the same dialogue.
\<close>

theorem blank_dialogue_is_scored:
  "fst (fetchTranscriptForCall silentServices ''AC1'' (worldWith [])) = Inr True
   \<and> llmLog (snd (analyzeCall silentServices (exOptions ''AC1'')
        (snd (fetchTranscriptForCall silentServices ''AC1'' (worldWith [])))))
      = [InboundPrompt (''Unknown: '' @ newline @ ''Unknown: '')]
   \<and> resultScore (fst (analyzeCall silentServices (exOptions ''AC1'')
        (snd (fetchTranscriptForCall silentServices ''AC1'' (worldWith [])))))
      = Some (JNum 85)
   \<and> webhookNormalize silentDialogue = Inl ''No valid dialogue items in transcript''"
proof -
  let ?row = "\<lparr>tr_callId = ''AC1'', tr_fullText = ''Unknown: '' @ newline @ ''Unknown: '',
      tr_jsonPayload = Some \<lparr>segments = Some
        [\<lparr>seg_start = Some 0, seg_end = Some 2, seg_speaker = Some ''Unknown'', seg_text = Some []\<rparr>,
         \<lparr>seg_start = Some 0, seg_end = Some 2, seg_speaker = Some ''Unknown'', seg_text = Some []\<rparr>]\<rparr>,
      tr_duration = Some 45, tr_status = ''completed''\<rparr>"
  let ?text = "''Unknown: '' @ newline @ ''Unknown: ''"
  let ?w = "(worldWith [?row])\<lparr>fetchLog := [''AC1'']\<rparr>"
  let ?d = "\<lparr>calls = [callDataOf (exCall ''AC1'' ''PNVbbBqeqM'' ''incoming'' 45)],
             transcripts = [?row], analyses = [], webhookHealth = []\<rparr>"
  let ?dir = "or_else (opt_callDirection (exOptions ''AC1''))
                (cr_direction (callDataOf (exCall ''AC1'' ''PNVbbBqeqM'' ''incoming'' 45)))"
  have fetch: "fetchTranscriptForCall silentServices ''AC1'' (worldWith []) = (Inr True, ?w)"
    by (simp add: silent_fetch silent_row)
  have dbw: "db ?w = Some ?d"
    by (simp add: worldWith_def)
  have res: "resolveTranscript ?d (exOptions ''AC1'') = Some (?text, Some ?row)"
    by (simp add: resolveTranscript_def exOptions_def truthy_def selectTranscript_def or_else_def
        newline_def)
  have dir: "?dir = ''incoming''"
    by (simp add: exOptions_def callDataOf_def exCall_def or_else_def Let_def)
  have built: "promptFor ?dir ?text = Inr (InboundPrompt ?text)"
    unfolding dir
    by (simp add: promptFor_def buildInboundQAPrompt_def unusableText_def trim_def isSpace_def
        newline_def)
  have llm: "sv_invokeLLM silentServices (InboundPrompt ?text) = LLMParsed (exAnswer (JNum 85))"
    by (simp add: silentServices_def constantScorer_def)
  have good: "\<not> invalidScore (aj_score (exAnswer (JNum 85)))"
    by (simp add: exAnswer_def invalidScore_def)
  have cid: "opt_callId (exOptions ''AC1'') = ''AC1''"
    by (simp add: exOptions_def)
  obtain d1 where
    sp: "scoringPath silentServices ''AC1'' (opt_phoneNumberId (exOptions ''AC1'')) ?dir ?text ?w =
       (Inr \<lparr>res_success = True, res_callId = ''AC1'',
             res_analysis = Some (ScoredAnalysis (exAnswer (JNum 85))), res_error = None\<rparr>,
        ?w\<lparr>llmLog := llmLog ?w @ [InboundPrompt ?text], db := Some d1\<rparr>)"
    using scoringPath_valid [OF dbw built llm good] by blast
  have run: "analyzeCall silentServices (exOptions ''AC1'') ?w =
       (\<lparr>res_success = True, res_callId = ''AC1'',
             res_analysis = Some (ScoredAnalysis (exAnswer (JNum 85))), res_error = None\<rparr>,
        ?w\<lparr>llmLog := llmLog ?w @ [InboundPrompt ?text], db := Some d1\<rparr>)"
    using analyzeCallBody_scoring [OF dbw ex_call res silent_classify, of silentServices] sp
    by (simp add: analyzeCall_def cid)
  have log: "llmLog ?w @ [InboundPrompt ?text] = [InboundPrompt ?text]"
    by (simp add: worldWith_def)
  have push: "webhookNormalize silentDialogue = Inl ''No valid dialogue items in transcript''"
    by (simp add: webhookNormalize_def silentDialogue_def validDialogueItem_def exItem_def
        trim_def Let_def)
  have c1: "fst (fetchTranscriptForCall silentServices ''AC1'' (worldWith [])) = Inr True"
    unfolding fetch by simp
  have c2: "llmLog (snd (analyzeCall silentServices (exOptions ''AC1'')
        (snd (fetchTranscriptForCall silentServices ''AC1'' (worldWith [])))))
      = llmLog ?w @ [InboundPrompt ?text]"
    unfolding fetch snd_conv run by simp
  have c3: "resultScore (fst (analyzeCall silentServices (exOptions ''AC1'')
        (snd (fetchTranscriptForCall silentServices ''AC1'' (worldWith [])))))
      = Some (JNum 85)"
    unfolding fetch snd_conv run fst_conv by (simp add: resultScore_def exAnswer_def)
  show ?thesis
    using c1 c2 [unfolded log] c3 push by blast
qed

subsection \<open>Idempotent call upsert\<close>

lemma cr_callId_callDataOf [simp]: "cr_callId (callDataOf call) = call_id call"
  by (simp add: callDataOf_def Let_def)

lemma upsertCall_fresh:
  assumes "db w = Some d" and "selectCall d (call_id call) = None"
  shows "upsertCall call w = (Inr False, w\<lparr>db := Some (insertCall (callDataOf call) d)\<rparr>)"
  using assms by (simp add: upsertCall_def Let_def)

lemma upsertCall_present:
  assumes "db w = Some d" and "selectCall d (call_id call) = Some row"
  shows "upsertCall call w =
           (Inr True, w\<lparr>db := Some (updateCalls (call_id call) (\<lambda>r. callDataOf call) d)\<rparr>)"
  using assms by (simp add: upsertCall_def Let_def)

lemma updateCalls_after_insert:
  assumes "selectCall d cid = None" and "cr_callId row = cid"
  shows "updateCalls cid (\<lambda>r. row) (insertCall row d) = insertCall row d"
  using assms
  by (simp add: updateCalls_def insertCall_def selectCall_def map_upd_find_None)

lemma selectCall_after_insert:
  assumes "selectCall d cid = None" and "cr_callId row = cid"
  shows "selectCall (insertCall row d) cid = Some row"
  using assms by (simp add: selectCall_def insertCall_def find_snoc_None)

lemma rows_after_insert:
  assumes "selectCall d cid = None" and "cr_callId row = cid"
  shows "filter (\<lambda>r. cr_callId r = cid) (calls (insertCall row d)) = [row]"
  using assms by (simp add: selectCall_def insertCall_def filter_find_None)

text \<open>
  Claim C6. For a call id the store does not hold yet, the first \<^verbatim>\<open>upsertCall\<close> reports
  an insert (\<open>False\<close>), the second one with the same data reports an update (\<open>True\<close>) and
  leaves the world as the first one left it, and the calls table then holds exactly one row
  for that id, the row built from the call.
\<close>

theorem upsertCall_idempotent:
  assumes "db w = Some d" and "selectCall d (call_id call) = None"
  shows "\<exists>w1 d1.
           upsertCall call w = (Inr False, w1)
         \<and> upsertCall call w1 = (Inr True, w1)
         \<and> db w1 = Some d1
         \<and> filter (\<lambda>r. cr_callId r = call_id call) (calls d1) = [callDataOf call]"
proof -
  let ?d1 = "insertCall (callDataOf call) d"
  let ?w1 = "w\<lparr>db := Some ?d1\<rparr>"
  have first: "upsertCall call w = (Inr False, ?w1)"
    using assms by (rule upsertCall_fresh)
  have sel: "selectCall ?d1 (call_id call) = Some (callDataOf call)"
    using assms(2) by (simp add: selectCall_after_insert)
  have "upsertCall call ?w1 =
          (Inr True, ?w1\<lparr>db := Some (updateCalls (call_id call) (\<lambda>r. callDataOf call) ?d1)\<rparr>)"
    using sel by (intro upsertCall_present) simp_all
  also have "updateCalls (call_id call) (\<lambda>r. callDataOf call) ?d1 = ?d1"
    using assms(2) by (simp add: updateCalls_after_insert)
  finally have second: "upsertCall call ?w1 = (Inr True, ?w1)" by simp
  have rows: "filter (\<lambda>r. cr_callId r = call_id call) (calls ?d1) = [callDataOf call]"
    using assms(2) by (simp add: rows_after_insert)
  show ?thesis using first second rows by auto
qed

text \<open>Two upserts of the call \<^verbatim>\<open>AC1\<close> into the empty store.\<close>

theorem upsertCall_idempotent_witness:
  "db emptyWorld = Some emptyDatabase
   \<and> selectCall emptyDatabase (call_id (exCall ''AC1'' ''PNVbbBqeqM'' ''incoming'' 45)) = None
   \<and> fst (upsertCall (exCall ''AC1'' ''PNVbbBqeqM'' ''incoming'' 45) emptyWorld) = Inr False
   \<and> fst (upsertCall (exCall ''AC1'' ''PNVbbBqeqM'' ''incoming'' 45)
            (snd (upsertCall (exCall ''AC1'' ''PNVbbBqeqM'' ''incoming'' 45) emptyWorld)))
       = Inr True
   \<and> map_option calls
        (db (snd (upsertCall (exCall ''AC1'' ''PNVbbBqeqM'' ''incoming'' 45)
            (snd (upsertCall (exCall ''AC1'' ''PNVbbBqeqM'' ''incoming'' 45) emptyWorld)))))
       = Some [callDataOf (exCall ''AC1'' ''PNVbbBqeqM'' ''incoming'' 45)]"
proof -
  have h1: "db emptyWorld = Some emptyDatabase"
    by (simp add: emptyWorld_def)
  have h2: "selectCall emptyDatabase (call_id (exCall ''AC1'' ''PNVbbBqeqM'' ''incoming'' 45)) = None"
    by (simp add: selectCall_def emptyDatabase_def)
  from upsertCall_idempotent [OF h1 h2] obtain w1 d1 where
    steps: "upsertCall (exCall ''AC1'' ''PNVbbBqeqM'' ''incoming'' 45) emptyWorld = (Inr False, w1)"
      "upsertCall (exCall ''AC1'' ''PNVbbBqeqM'' ''incoming'' 45) w1 = (Inr True, w1)"
      "db w1 = Some d1"
    by blast
  have w1: "w1 = emptyWorld\<lparr>db := Some (insertCall
              (callDataOf (exCall ''AC1'' ''PNVbbBqeqM'' ''incoming'' 45)) emptyDatabase)\<rparr>"
    using steps(1) upsertCall_fresh [OF h1 h2] by simp
  show ?thesis
    using h1 h2 steps by (auto simp: w1 insertCall_def emptyDatabase_def)
qed

subsection \<open>The poll run survives a failing transcript request\<close>




subsection \<open>The webhook always acknowledges\<close>

lemma handlerSync_cases:
  "(\<exists>msg. fst (handlerSync sv now req w) = Inl msg)
   \<or> (\<exists>response rest. fst (handlerSync sv now req w) = Inr (response, rest)
         \<and> resp_status response = 200 \<and> resp_received response)"
  by (simp add: handlerSync_def Let_def callDataOfEvent_def split: option.splits)

lemma handlerSync_ignored:
  assumes "req_body req = Some body"
    and "wb_type body \<noteq> Str ''call.completed''"
    and "wb_type body \<noteq> Str ''call.transcript.completed''"
  shows "handlerSync sv now req w
           = (Inr (\<lparr>resp_status = 200, resp_received = True, resp_processed = Some False,
                     resp_reason = Some (''Not a call event (type: '' @ showJ (wb_type body) @ '')''),
                     resp_callId = Undefined, resp_willAnalyze = None, resp_phoneLine = None,
                     resp_error = None\<rparr>, None),
              trackHealth now (wb_type body) (callDataOfEvent (wb_data body)) w)"
  using assms by (simp add: handlerSync_def Let_def)

lemma webhookHandler_response:
  "fst (webhookHandler sv now req w)
     = (case fst (handlerSync sv now req w) of
          Inl msg \<Rightarrow>
            \<lparr>resp_status = 200, resp_received = True, resp_processed = None,
             resp_reason = None, resp_callId = Undefined, resp_willAnalyze = None,
             resp_phoneLine = None, resp_error = Some ''Internal processing error''\<rparr>
        | Inr out \<Rightarrow> fst out)"
  by (simp add: webhookHandler_def split: prod.splits sum.splits option.splits)

text \<open>
  Claim C8. Whatever the request and the state, the handler answers with status 200 and
  \<^verbatim>\<open>received: true\<close>: an event of another type is acknowledged with
  \<^verbatim>\<open>processed: false\<close> and leaves nothing behind but the heartbeat row, and an exception
  before the response is answered with the acknowledgment that carries
  \<^verbatim>\<open>Internal processing error\<close>.
\<close>

theorem webhook_always_acknowledges:
  "resp_status (fst (webhookHandler sv now req w)) = 200
   \<and> resp_received (fst (webhookHandler sv now req w))
   \<and> (req_body req = Some body
        \<and> wb_type body \<noteq> Str ''call.completed''
        \<and> wb_type body \<noteq> Str ''call.transcript.completed'' \<longrightarrow>
        resp_processed (fst (webhookHandler sv now req w)) = Some False
        \<and> snd (webhookHandler sv now req w)
            = trackHealth now (wb_type body) (callDataOfEvent (wb_data body)) w)
   \<and> (fst (handlerSync sv now req w) = Inl msg \<longrightarrow>
        resp_error (fst (webhookHandler sv now req w)) = Some ''Internal processing error'')"
proof (intro conjI impI)
  show "resp_status (fst (webhookHandler sv now req w)) = 200"
    using handlerSync_cases [of sv now req w] by (auto simp: webhookHandler_response)
  show "resp_received (fst (webhookHandler sv now req w))"
    using handlerSync_cases [of sv now req w] by (auto simp: webhookHandler_response)
  show "resp_processed (fst (webhookHandler sv now req w)) = Some False"
    if "req_body req = Some body
        \<and> wb_type body \<noteq> Str ''call.completed''
        \<and> wb_type body \<noteq> Str ''call.transcript.completed''"
    using that handlerSync_ignored [of req body sv now w]
    by (simp add: webhookHandler_def)
  show "snd (webhookHandler sv now req w)
            = trackHealth now (wb_type body) (callDataOfEvent (wb_data body)) w"
    if "req_body req = Some body
        \<and> wb_type body \<noteq> Str ''call.completed''
        \<and> wb_type body \<noteq> Str ''call.transcript.completed''"
    using that handlerSync_ignored [of req body sv now w]
    by (simp add: webhookHandler_def)
  show "resp_error (fst (webhookHandler sv now req w)) = Some ''Internal processing error''"
    if "fst (handlerSync sv now req w) = Inl msg"
    using that by (simp add: webhookHandler_response)
qed

text \<open>
  An event of another type, a \<^verbatim>\<open>call.completed\<close> event without data, which throws
  before the response, and a \<^verbatim>\<open>call.completed\<close> event for the call \<^verbatim>\<open>AC2\<close>.
\<close>

theorem webhook_always_acknowledges_witness:
  "resp_processed (fst (webhookHandler flakyServices exNow (exRequest ''message.received'' None)
       emptyWorld)) = Some False
   \<and> fst (handlerSync flakyServices exNow (exRequest ''call.completed'' None) emptyWorld)
       = Inl typeError
   \<and> resp_error (fst (webhookHandler flakyServices exNow (exRequest ''call.completed'' None)
       emptyWorld)) = Some ''Internal processing error''
   \<and> resp_status (fst (webhookHandler flakyServices exNow (exRequest ''call.completed'' None)
       emptyWorld)) = 200
   \<and> resp_received (fst (webhookHandler flakyServices exNow (exRequest ''call.completed'' None)
       emptyWorld))
   \<and> fst (webhookHandler flakyServices exNow
        (exRequest ''call.completed'' (Some \<lparr>ed_object = Some exPayload, ed_fields = exPayload\<rparr>))
        emptyWorld)
     = \<lparr>resp_status = 200, resp_received = True, resp_processed = Some True, resp_reason = None,
        resp_callId = Str ''AC2'', resp_willAnalyze = Some True, resp_phoneLine = Some ''main'',
        resp_error = None\<rparr>"
proof -
  have a0: "fst (webhookHandler flakyServices exNow
        (exRequest ''call.completed'' (Some \<lparr>ed_object = Some exPayload, ed_fields = exPayload\<rparr>))
        emptyWorld)
     = \<lparr>resp_status = 200, resp_received = True, resp_processed = Some True, resp_reason = None,
        resp_callId = Str ''AC2'', resp_willAnalyze = Some True, resp_phoneLine = Some ''main'',
        resp_error = None\<rparr>"
    by code_simp
  have a1: "req_body (exRequest ''message.received'' None)
        = Some \<lparr>wb_type = Str ''message.received'', wb_data = None\<rparr>
      \<and> wb_type \<lparr>wb_type = Str ''message.received'', wb_data = None\<rparr> \<noteq> Str ''call.completed''
      \<and> wb_type \<lparr>wb_type = Str ''message.received'', wb_data = None\<rparr>
          \<noteq> Str ''call.transcript.completed''"
    by (simp add: exRequest_def)
  have a2: "fst (handlerSync flakyServices exNow (exRequest ''call.completed'' None) emptyWorld)
       = Inl typeError"
    by (simp add: handlerSync_def exRequest_def callDataOfEvent_def Let_def)
  note ack = webhook_always_acknowledges
    [of flakyServices exNow "exRequest ''call.completed'' None" emptyWorld]
  show ?thesis
    using webhook_always_acknowledges
        [THEN conjunct2, THEN conjunct2, THEN conjunct1, THEN mp, OF a1, THEN conjunct1]
      ack [THEN conjunct2, THEN conjunct2, THEN conjunct2, THEN mp, OF a2]
      ack [THEN conjunct1] ack [THEN conjunct2, THEN conjunct1] a2 a0
    by blast
qed

subsection \<open>The two transcript normalisers\<close>

lemma webhookSegment_eq_pollSegment:
  "d_start d \<noteq> None \<Longrightarrow> d_end d \<noteq> None \<Longrightarrow> webhookSegment d = pollSegment d"
  by (auto simp: webhookSegment_def pollSegment_def num_or_zero_def)

lemma webhookNormalize_filter:
  "webhookNormalize dialogue =
     (if filter validDialogueItem dialogue = [] then Inl ''No valid dialogue items in transcript''
      else Inr \<lparr>n_fullText = pollFullText (filter validDialogueItem dialogue),
                n_segments = map webhookSegment (filter validDialogueItem dialogue)\<rparr>)"
  by (simp add: webhookNormalize_def pollFullText_def Let_def)

text \<open>
  Claim C9, as the code has it. For a non-empty dialogue in which every item has non-blank
  content, a speaker field and both offsets, the push path builds the text and the segments
  the poll path builds. For any dialogue, the push path first drops the items that fail
  its validity check, and builds the poll path's text of what remains; when nothing
  remains it throws and stores nothing.
\<close>

theorem webhook_transcript_matches_poll:
  "(dialogue \<noteq> []
      \<and> (\<forall>d \<in> set dialogue. validDialogueItem d \<and> d_start d \<noteq> None \<and> d_end d \<noteq> None)
      \<longrightarrow> webhookNormalize dialogue = Inr (pollNormalize dialogue))
   \<and> (filter validDialogueItem dialogue = []
      \<longrightarrow> webhookNormalize dialogue = Inl ''No valid dialogue items in transcript'')
   \<and> (\<forall>n. webhookNormalize dialogue = Inr n
      \<longrightarrow> n_fullText n = n_fullText (pollNormalize (filter validDialogueItem dialogue)))"
proof (intro conjI impI allI)
  assume a: "dialogue \<noteq> []
      \<and> (\<forall>d \<in> set dialogue. validDialogueItem d \<and> d_start d \<noteq> None \<and> d_end d \<noteq> None)"
  then have keep: "filter validDialogueItem dialogue = dialogue"
    by (simp add: filter_id_conv)
  from a have segs: "map webhookSegment dialogue = map pollSegment dialogue"
    by (simp add: webhookSegment_eq_pollSegment)
  show "webhookNormalize dialogue = Inr (pollNormalize dialogue)"
    using a by (simp add: webhookNormalize_filter keep segs pollNormalize_def)
next
  assume "filter validDialogueItem dialogue = []"
  then show "webhookNormalize dialogue = Inl ''No valid dialogue items in transcript''"
    by (simp add: webhookNormalize_filter)
next
  fix n
  assume "webhookNormalize dialogue = Inr n"
  then show "n_fullText n = n_fullText (pollNormalize (filter validDialogueItem dialogue))"
    by (auto simp: webhookNormalize_filter pollNormalize_def split: if_splits)
qed

text \<open>A dialogue of two valid items, and one whose only item has no speaker.\<close>

theorem webhook_transcript_matches_poll_witness:
  "webhookNormalize [exItem (Some ''Hello'') (Some ''+14125550100''),
                     exItem (Some ''Hi there'') (Some ''+14125550199'')]
     = Inr (pollNormalize [exItem (Some ''Hello'') (Some ''+14125550100''),
                           exItem (Some ''Hi there'') (Some ''+14125550199'')])
   \<and> webhookNormalize [exItem (Some ''Hello'') None]
       = Inl ''No valid dialogue items in transcript''"
proof -
  have v: "validDialogueItem (exItem (Some ''Hello'') (Some ''+14125550100''))"
    "validDialogueItem (exItem (Some ''Hi there'') (Some ''+14125550199''))"
    "\<not> validDialogueItem (exItem (Some ''Hello'') None)"
    by (simp_all add: validDialogueItem_def exItem_def trim_def isSpace_def)
  have o: "d_start (exItem c i) = Some 0" "d_end (exItem c i) = Some 2" for c i
    by (simp_all add: exItem_def)
  show ?thesis
    using webhook_transcript_matches_poll
            [of "[exItem (Some ''Hello'') (Some ''+14125550100''),
                  exItem (Some ''Hi there'') (Some ''+14125550199'')]", THEN conjunct1]
          webhook_transcript_matches_poll
            [of "[exItem (Some ''Hello'') None]", THEN conjunct2, THEN conjunct1]
    by (simp add: v o)
qed

text \<open>
  The claim as worded covers every raw dialogue. With one valid item and one item without
  a speaker, the poll path keeps both lines and the push path keeps one.
\<close>

theorem webhook_poll_differ_counterexample:
  "webhookNormalize [exItem (Some ''Hello'') (Some ''+14125550100''), exItem (Some ''Hi'') None]
     = Inr \<lparr>n_fullText = ''+14125550100: Hello'',
            n_segments = [\<lparr>seg_start = Some 0, seg_end = Some 2,
                           seg_speaker = Some ''+14125550100'', seg_text = Some ''Hello''\<rparr>]\<rparr>
   \<and> n_fullText (pollNormalize
        [exItem (Some ''Hello'') (Some ''+14125550100''), exItem (Some ''Hi'') None])
       = ''+14125550100: Hello'' @ newline @ ''Unknown: Hi''
   \<and> webhookNormalize [exItem (Some ''Hello'') (Some ''+14125550100''), exItem (Some ''Hi'') None]
       \<noteq> Inr (pollNormalize
            [exItem (Some ''Hello'') (Some ''+14125550100''), exItem (Some ''Hi'') None])"
  by (simp add: webhookNormalize_def pollNormalize_def pollFullText_def validDialogueItem_def
      exItem_def trim_def isSpace_def dialogueLine_def speakerOf_def or_opt_def or_else_def
      truthy_def webhookSegment_def pollSegment_def num_or_zero_def newline_def Let_def)

subsection \<open>Batch analysis\<close>

lemma batchLoop_invariant:
  assumes "batchLoop sv ids (rs, ok, bad) w = ((rs', ok', bad'), w')"
    and "ok = length (filter res_success rs)"
    and "bad = length (filter (\<lambda>r. \<not> res_success r) rs)"
  shows "map res_callId rs' = map res_callId rs @ ids
       \<and> ok' = length (filter res_success rs')
       \<and> bad' = length (filter (\<lambda>r. \<not> res_success r) rs')"
  using assms
proof (induction ids arbitrary: rs ok bad w)
  case Nil
  then show ?case by auto
next
  case (Cons callId rest)
  obtain result w1 where step:
    "analyzeCall sv \<lparr>opt_callId = callId, opt_transcriptText = None, opt_callDirection = None,
        opt_phoneNumberId = Undefined\<rparr> w = (result, w1)"
    by (cases "analyzeCall sv \<lparr>opt_callId = callId, opt_transcriptText = None,
        opt_callDirection = None, opt_phoneNumberId = Undefined\<rparr> w")
  have cid: "res_callId result = callId"
    using analyzeCall_callId [of sv "\<lparr>opt_callId = callId, opt_transcriptText = None,
        opt_callDirection = None, opt_phoneNumberId = Undefined\<rparr>" w] step by simp
  from Cons.prems(1) step have rec:
    "batchLoop sv rest (rs @ [result], (if res_success result then ok + 1 else ok),
        (if res_success result then bad else bad + 1)) w1 = ((rs', ok', bad'), w')"
    by simp
  have "map res_callId rs' = map res_callId (rs @ [result]) @ rest
      \<and> ok' = length (filter res_success rs')
      \<and> bad' = length (filter (\<lambda>r. \<not> res_success r) rs')"
    by (rule Cons.IH [OF rec]) (use Cons.prems in auto)
  then show ?case using cid by simp
qed

text \<open>
  Claim C10. For every list of call ids, the result of \<^verbatim>\<open>batchAnalyzeCalls\<close> has
  \<open>total\<close> equal to the length of the list, one result per id in the order of the list,
  \<open>successful\<close> and \<open>failed\<close> counting the results with and without the success flag, and
  the two counts add up to \<open>total\<close>.
\<close>

theorem batchAnalyzeCalls_counts:
  "total (fst (batchAnalyzeCalls sv callIds w)) = length callIds
   \<and> map res_callId (results (fst (batchAnalyzeCalls sv callIds w))) = callIds
   \<and> successful (fst (batchAnalyzeCalls sv callIds w))
       = length (filter res_success (results (fst (batchAnalyzeCalls sv callIds w))))
   \<and> failed (fst (batchAnalyzeCalls sv callIds w))
       = length (filter (\<lambda>r. \<not> res_success r) (results (fst (batchAnalyzeCalls sv callIds w))))
   \<and> successful (fst (batchAnalyzeCalls sv callIds w)) + failed (fst (batchAnalyzeCalls sv callIds w))
       = total (fst (batchAnalyzeCalls sv callIds w))"
proof -
  obtain rs ok bad w1 where loop: "batchLoop sv callIds ([], 0, 0) w = ((rs, ok, bad), w1)"
    by (metis prod_cases3 surj_pair)
  have inv: "map res_callId rs = callIds \<and> ok = length (filter res_success rs)
      \<and> bad = length (filter (\<lambda>r. \<not> res_success r) rs)"
    using batchLoop_invariant [OF loop] by simp
  have len: "length rs = length callIds"
    using inv by (metis length_map)
  have "ok + bad = length rs"
    using inv sum_length_filter_compl [of res_success rs] by simp
  then show ?thesis
    using inv len by (simp add: batchAnalyzeCalls_def loop)
qed

end
